theory Spec2Isabelle
  imports Main
begin

section \<open>Data model of the hipBLAS client drivers\<close>

text \<open>
  The sources are four test drivers: \<open>testing_her_batched\<close>, \<open>testing_hpr\<close>,
  \<open>testing_her2k_strided_batched\<close> and \<open>testing_herk\<close>. Each one is straight-line code
  over host buffers, device buffers and calls to collaborators that are declared elsewhere
  (the hipBLAS routine under test, the CPU reference routine, the HIP runtime, the data
  initialiser, the unit and norm checks, the timer and the logger). A driver is modelled as
  a state transformer; every call to a collaborator is recorded, with the values it is
  given, in a trace.
\<close>

datatype hipblasStatus =
    HIPBLAS_STATUS_SUCCESS
  | HIPBLAS_STATUS_INVALID_VALUE
  | HIPBLAS_STATUS_OTHER nat

datatype hipblasPointerMode_t = HIPBLAS_POINTER_MODE_HOST | HIPBLAS_POINTER_MODE_DEVICE

datatype hipblasOperation_t = HIPBLAS_OP_N | HIPBLAS_OP_T | HIPBLAS_OP_C

text \<open>
  The fields of \<open>Arguments\<close> that the drivers read. The C \<open>int\<close> fields are \<open>int\<close>; the
  scalars have the type \<open>'s\<close>; \<open>stride_scale\<close> is a \<open>double\<close>, kept abstract as \<open>'d\<close>.
  \<open>transA\<close> holds the value of \<open>char2hipblas_operation(arg.transA)\<close>.
\<close>

record ('s, 'd) Arguments =
  N :: int
  K :: int
  incx :: int
  lda :: int
  ldb :: int
  ldc :: int
  batch_count :: int
  stride_scale :: 'd
  uplo :: char
  transA :: hipblasOperation_t
  alpha :: 's
  beta :: 's
  fortran :: bool
  unit_check :: bool
  norm_check :: bool
  timing :: bool
  cold_iters :: int
  iters :: int

text \<open>
  A buffer is a null pointer, one contiguous array (\<open>host_vector\<close>, \<open>device_vector\<close>) or
  a batch of separately allocated arrays (\<open>host_batch_vector\<close>, \<open>device_batch_vector\<close>).
\<close>

datatype 'a buffer = Null | Flat "'a list" | Batch "'a list list"

datatype buf_id =
    HA | HB | HX | HA_cpu | HA_host | HA_device | HC_host | HC_device | HC_gold
  | DA | DB | DC | DX | D_alpha | D_beta

text \<open>
  A scalar argument as the routine under test receives it: \<open>nullptr\<close>, the address of a
  host variable (with the value stored there) or a device allocation (with the value stored
  there, if any). In a driver it is written \<open>&h_alpha\<close> (\<open>HostVar\<close>) or \<open>d_alpha\<close>
  (\<open>DeviceVar\<close>).
\<close>

datatype 's scalar_ptr = NullScalar | HostScalar 's | DeviceScalar "'s option"

datatype ('a, 's, 'd) event =
    CreateHandle
  | Alloc buf_id nat
  | AllocBatch buf_id nat nat
  | Memcheck buf_id
  | InitData buf_id
  | HostAssign buf_id buf_id
  | Memcpy buf_id buf_id
  | MemcpyScalar buf_id
  | SetPointerMode hipblasPointerMode_t
  | GetStream
  | Kernel hipblasPointerMode_t "'s scalar_ptr list" "'a buffer list" "'a buffer" hipblasStatus
  | ExpectStatus hipblasStatus hipblasStatus
  | Cblas nat "'a list list" "'a list"
  | UnitCheck buf_id "'a buffer" buf_id "'a buffer"
  | NormCheck buf_id "'a buffer" buf_id "'a buffer"
  | GetTime
  | LogArgs "'d option" "'d option" "'d option"

datatype failure = RuntimeError | KernelError hipblasStatus | OutOfBounds | BadAlloc

text \<open>
  The collaborators, as parameters. \<open>kernel\<close> is the routine under test: it is given the
  argument record (the drivers pass its shape fields unchanged), the pointer mode of the
  handle, the scalar pointers, the input buffers and the in/out buffer, and returns its
  status and the new contents of the in/out buffer. \<open>cblas\<close> is the CPU reference routine on
  one problem instance. \<open>init_value b i j\<close> is the value the data initialiser writes to
  element \<open>j\<close> of array \<open>i\<close> of buffer \<open>b\<close>; \<open>fresh\<close> is the value of storage that has
  been allocated and not written. \<open>runtime_ok n\<close> tells whether the runtime call made when the trace
  has \<open>n\<close> entries succeeds. \<open>scale_stride n s\<close> is the \<open>double\<close> product
  \<open>n * stride_scale\<close> converted to \<open>hipblasStride\<close>.
\<close>

record ('a, 's, 'd) env =
  kernel :: "('s, 'd) Arguments \<Rightarrow> hipblasPointerMode_t \<Rightarrow> 's scalar_ptr list
               \<Rightarrow> 'a buffer list \<Rightarrow> 'a buffer \<Rightarrow> hipblasStatus \<times> 'a buffer"
  cblas :: "('s, 'd) Arguments \<Rightarrow> 'a list list \<Rightarrow> 'a list \<Rightarrow> 'a list"
  init_value :: "buf_id \<Rightarrow> nat \<Rightarrow> nat \<Rightarrow> 'a"
  fresh :: 'a
  runtime_ok :: "nat \<Rightarrow> bool"
  clock :: "nat \<Rightarrow> 'd"
  norm_check_general :: "'a buffer \<Rightarrow> 'a buffer \<Rightarrow> 'd"
  scale_stride :: "nat \<Rightarrow> 'd \<Rightarrow> int"

text \<open>
  The state of one test case. The three \<open>double\<close> locals are declared without an
  initialiser in every driver, so they start as \<open>None\<close> (no value assigned yet).
  \<open>failure\<close> is set when a checked call fails (\<open>CHECK_HIP_ERROR\<close>, \<open>CHECK_HIPBLAS_ERROR\<close>,
  \<open>ASSERT_HIP_SUCCESS\<close>, \<open>ASSERT_HIPBLAS_SUCCESS\<close>) or a buffer is indexed out of range;
  \<open>finished\<close> is set by a \<open>return\<close>; \<open>result\<close> is the returned status, if the driver
  returns one.
\<close>

record ('a, 's, 'd) state =
  mem :: "buf_id \<Rightarrow> 'a buffer"
  dscal :: "buf_id \<Rightarrow> 's option"
  pointer_mode :: hipblasPointerMode_t
  gpu_time_used :: "'d option"
  hipblas_error_host :: "'d option"
  hipblas_error_device :: "'d option"
  trace :: "('a, 's, 'd) event list"
  failure :: "failure option"
  finished :: bool
  result :: "hipblasStatus option"

definition initial :: "('a, 's, 'd) state" where
  "initial = \<lparr> mem = (\<lambda>_. Null), dscal = (\<lambda>_. None),
               pointer_mode = HIPBLAS_POINTER_MODE_HOST,
               gpu_time_used = None, hipblas_error_host = None, hipblas_error_device = None,
               trace = [], failure = None, finished = False, result = None \<rparr>"

section \<open>Statements of the drivers\<close>

type_synonym ('a, 's, 'd) step = "('a, 's, 'd) state \<Rightarrow> ('a, 's, 'd) state"

definition stopped :: "('a, 's, 'd) state \<Rightarrow> bool" where
  "stopped st = (failure st \<noteq> None \<or> finished st)"

text \<open>Statements in sequence: nothing runs after a failed check or a \<open>return\<close>.\<close>

fun exec :: "('a, 's, 'd) step list \<Rightarrow> ('a, 's, 'd) step" where
  "exec [] st = st"
| "exec (f # fs) st = (if stopped st then st else exec fs (f st))"

definition block_if :: "bool \<Rightarrow> ('a, 's, 'd) step list \<Rightarrow> ('a, 's, 'd) step" where
  "block_if b body st = (if b then exec body st else st)"

text \<open>\<open>for(int i = i0; i < n; i++) body(i)\<close>, left at once when the body has failed.\<close>

function for_loop :: "int \<Rightarrow> int \<Rightarrow> (int \<Rightarrow> ('a, 's, 'd) step) \<Rightarrow> ('a, 's, 'd) step" where
  "for_loop i n body st =
     (if i < n \<and> \<not> stopped st then for_loop (i + 1) n body (body i st) else st)"
  by pat_completeness auto
termination
  by (relation "measure (\<lambda>(i, n, body, st). nat (n - i))") auto

declare for_loop.simps [simp del]

definition emit :: "('a, 's, 'd) event \<Rightarrow> ('a, 's, 'd) step" where
  "emit e st = st\<lparr>trace := trace st @ [e]\<rparr>"

text \<open>A runtime call under a check macro: it is recorded, then takes effect or fails.\<close>

definition checked :: "('a, 's, 'd) env \<Rightarrow> ('a, 's, 'd) event \<Rightarrow> ('a, 's, 'd) step
                         \<Rightarrow> ('a, 's, 'd) step" where
  "checked e ev f st =
     (if runtime_ok e (length (trace st)) then f (emit ev st)
      else (emit ev st)\<lparr>failure := Some RuntimeError\<rparr>)"

definition hipblasLocalHandle :: "('a, 's, 'd) step" where
  "hipblasLocalHandle = emit CreateHandle"

definition alloc :: "('a, 's, 'd) env \<Rightarrow> buf_id \<Rightarrow> nat \<Rightarrow> ('a, 's, 'd) step" where
  "alloc e b n st = (emit (Alloc b n) st)\<lparr>mem := (mem st)(b := Flat (replicate n (fresh e)))\<rparr>"

definition alloc_batch :: "('a, 's, 'd) env \<Rightarrow> buf_id \<Rightarrow> nat \<Rightarrow> nat \<Rightarrow> ('a, 's, 'd) step" where
  "alloc_batch e b n bc st =
     (emit (AllocBatch b n bc) st)
       \<lparr>mem := (mem st)(b := Batch (replicate bc (replicate n (fresh e))))\<rparr>"

text \<open>
  An allocation whose size was computed as a signed product and converted to \<open>size_t\<close>: a
  negative product wraps to a size no allocator grants.
\<close>

definition alloc_sized :: "('a, 's, 'd) env \<Rightarrow> buf_id \<Rightarrow> int \<Rightarrow> ('a, 's, 'd) step" where
  "alloc_sized e b n st = (if n < 0 then st\<lparr>failure := Some BadAlloc\<rparr> else alloc e b (nat n) st)"

definition alloc_scalar :: "buf_id \<Rightarrow> ('a, 's, 'd) step" where
  "alloc_scalar b st = (emit (Alloc b 1) st)\<lparr>dscal := (dscal st)(b := None)\<rparr>"

definition memcheck :: "('a, 's, 'd) env \<Rightarrow> buf_id \<Rightarrow> ('a, 's, 'd) step" where
  "memcheck e b = checked e (Memcheck b) (\<lambda>st. st)"

text \<open>\<open>hipblas_init_matrix\<close> and \<open>hipblas_init_vector\<close> write the elements of a host buffer.\<close>

fun fill :: "(nat \<Rightarrow> nat \<Rightarrow> 'a) \<Rightarrow> 'a buffer \<Rightarrow> 'a buffer" where
  "fill f Null = Null"
| "fill f (Flat xs) = Flat (map (f 0) [0..<length xs])"
| "fill f (Batch xss) = Batch (map (\<lambda>i. map (f i) [0..<length (xss ! i)]) [0..<length xss])"

definition hipblas_init :: "('a, 's, 'd) env \<Rightarrow> buf_id \<Rightarrow> ('a, 's, 'd) step" where
  "hipblas_init e b st =
     (emit (InitData b) st)\<lparr>mem := (mem st)(b := fill (init_value e b) (mem st b))\<rparr>"

definition host_assign :: "buf_id \<Rightarrow> buf_id \<Rightarrow> ('a, 's, 'd) step" where
  "host_assign dst src st = (emit (HostAssign dst src) st)\<lparr>mem := (mem st)(dst := mem st src)\<rparr>"

definition hipMemcpy :: "('a, 's, 'd) env \<Rightarrow> buf_id \<Rightarrow> buf_id \<Rightarrow> ('a, 's, 'd) step" where
  "hipMemcpy e dst src =
     checked e (Memcpy dst src) (\<lambda>st. st\<lparr>mem := (mem st)(dst := mem st src)\<rparr>)"

definition hipMemcpy_scalar :: "('a, 's, 'd) env \<Rightarrow> buf_id \<Rightarrow> 's \<Rightarrow> ('a, 's, 'd) step" where
  "hipMemcpy_scalar e dst v =
     checked e (MemcpyScalar dst) (\<lambda>st. st\<lparr>dscal := (dscal st)(dst := Some v)\<rparr>)"

definition hipblasSetPointerMode :: "('a, 's, 'd) env \<Rightarrow> hipblasPointerMode_t \<Rightarrow> ('a, 's, 'd) step" where
  "hipblasSetPointerMode e m = checked e (SetPointerMode m) (\<lambda>st. st\<lparr>pointer_mode := m\<rparr>)"

definition hipblasGetStream :: "('a, 's, 'd) env \<Rightarrow> ('a, 's, 'd) step" where
  "hipblasGetStream e = checked e GetStream (\<lambda>st. st)"

text \<open>
  A call of the routine under test on device buffers, under \<open>CHECK_HIPBLAS_ERROR\<close> or
  \<open>ASSERT_HIPBLAS_SUCCESS\<close>: the in/out buffer takes the contents the routine leaves, and a
  status other than success ends the test case.
\<close>

datatype 's scalar_arg = HostVar 's | DeviceVar buf_id

fun scalar_ptr_of :: "('a, 's, 'd) state \<Rightarrow> 's scalar_arg \<Rightarrow> 's scalar_ptr" where
  "scalar_ptr_of st (HostVar v) = HostScalar v"
| "scalar_ptr_of st (DeviceVar b) = DeviceScalar (dscal st b)"

definition kernel_call :: "('a, 's, 'd) env \<Rightarrow> ('s, 'd) Arguments
     \<Rightarrow> 's scalar_arg list \<Rightarrow> buf_id list \<Rightarrow> buf_id \<Rightarrow> ('a, 's, 'd) step" where
  "kernel_call e arg scalars ins out st =
     (let ss = map (scalar_ptr_of st) scalars;
          r = kernel e arg (pointer_mode st) ss (map (mem st) ins) (mem st out);
          st1 = emit (Kernel (pointer_mode st) ss (map (mem st) ins) (mem st out) (fst r)) st;
          st2 = st1\<lparr>mem := (mem st1)(out := snd r)\<rparr>
      in if fst r = HIPBLAS_STATUS_SUCCESS then st2
         else st2\<lparr>failure := Some (KernelError (fst r))\<rparr>)"

text \<open>
  The quick-return call with null pointers for the scalar and every buffer, followed by
  \<open>EXPECT_HIPBLAS_STATUS(actual, expected)\<close>. No buffer is passed, so none can change.
\<close>

definition kernel_null_call :: "('a, 's, 'd) env \<Rightarrow> ('s, 'd) Arguments \<Rightarrow> nat \<Rightarrow> hipblasStatus
     \<Rightarrow> ('a, 's, 'd) state \<Rightarrow> hipblasStatus \<times> ('a, 's, 'd) state" where
  "kernel_null_call e arg n_in expected st =
     (let actual = fst (kernel e arg (pointer_mode st) [NullScalar] (replicate n_in Null) Null);
          st1 = emit (Kernel (pointer_mode st) [NullScalar] (replicate n_in Null) Null actual) st
      in (actual, emit (ExpectStatus actual expected) st1))"

definition return_void :: "('a, 's, 'd) step" where
  "return_void st = st\<lparr>finished := True\<rparr>"

definition return_status :: "hipblasStatus \<Rightarrow> ('a, 's, 'd) step" where
  "return_status s st = st\<lparr>finished := True, result := Some s\<rparr>"

definition unit_check_general :: "buf_id \<Rightarrow> buf_id \<Rightarrow> ('a, 's, 'd) step" where
  "unit_check_general gold res st = emit (UnitCheck gold (mem st gold) res (mem st res)) st"

definition norm_check_host :: "('a, 's, 'd) env \<Rightarrow> buf_id \<Rightarrow> buf_id \<Rightarrow> ('a, 's, 'd) step" where
  "norm_check_host e gold res st =
     (emit (NormCheck gold (mem st gold) res (mem st res)) st)
       \<lparr>hipblas_error_host := Some (norm_check_general e (mem st gold) (mem st res))\<rparr>"

definition norm_check_device :: "('a, 's, 'd) env \<Rightarrow> buf_id \<Rightarrow> buf_id \<Rightarrow> ('a, 's, 'd) step" where
  "norm_check_device e gold res st =
     (emit (NormCheck gold (mem st gold) res (mem st res)) st)
       \<lparr>hipblas_error_device := Some (norm_check_general e (mem st gold) (mem st res))\<rparr>"

text \<open>\<open>gpu_time_used = get_time_us_sync(stream)\<close>\<close>

definition start_timer :: "('a, 's, 'd) env \<Rightarrow> ('a, 's, 'd) step" where
  "start_timer e st = (emit GetTime st)\<lparr>gpu_time_used := Some (clock e (length (trace st)))\<rparr>"

text \<open>
  \<open>gpu_time_used = get_time_us_sync(stream) - gpu_time_used\<close>: the difference has a value
  only if the variable has been assigned before.
\<close>

definition stop_timer :: "('a, 's, 'd::minus) env \<Rightarrow> ('a, 's, 'd) step" where
  "stop_timer e st =
     (emit GetTime st)
       \<lparr>gpu_time_used := map_option (\<lambda>t0. clock e (length (trace st)) - t0) (gpu_time_used st)\<rparr>"

definition log_args :: "('a, 's, 'd) step" where
  "log_args st =
     emit (LogArgs (gpu_time_used st) (hipblas_error_host st) (hipblas_error_device st)) st"

text \<open>The timed loop shared by the four drivers.\<close>

definition timing_loop :: "('a, 's, 'd) env \<Rightarrow> ('s, 'd) Arguments \<Rightarrow> ('a, 's, 'd) step
     \<Rightarrow> ('a, 's, 'd) step" where
  "timing_loop e arg call =
     for_loop 0 (cold_iters arg + iters arg)
       (\<lambda>iter. exec [block_if (iter = cold_iters arg) [start_timer e], call])"


section \<open>The CPU reference calls\<close>

text \<open>
  \<open>cblas_her<T>(uplo, N, h_alpha, hx[b], incx, hA_cpu[b], lda)\<close>: element \<open>b\<close> of the batch
  \<open>gold\<close> is replaced by what the reference routine makes of it.
\<close>

definition cblas_batch :: "('a, 's, 'd) env \<Rightarrow> ('s, 'd) Arguments \<Rightarrow> buf_id \<Rightarrow> buf_id \<Rightarrow> nat
     \<Rightarrow> ('a, 's, 'd) step" where
  "cblas_batch e arg x gold b st =
     (case (mem st x, mem st gold) of
        (Batch xs, Batch cs) \<Rightarrow>
          if b < length xs \<and> b < length cs
          then (emit (Cblas b [xs ! b] (cs ! b)) st)
                 \<lparr>mem := (mem st)(gold := Batch (cs[b := cblas e arg [xs ! b] (cs ! b)]))\<rparr>
          else st\<lparr>failure := Some OutOfBounds\<rparr>
      | _ \<Rightarrow> st\<lparr>failure := Some OutOfBounds\<rparr>)"

text \<open>The reference routine on whole arrays (\<open>cblas_hpr\<close>, \<open>cblas_herk\<close>).\<close>

fun flat_contents :: "'a buffer list \<Rightarrow> 'a list list option" where
  "flat_contents [] = Some []"
| "flat_contents (Flat xs # bs) = map_option ((#) xs) (flat_contents bs)"
| "flat_contents (_ # bs) = None"

definition cblas_flat :: "('a, 's, 'd) env \<Rightarrow> ('s, 'd) Arguments \<Rightarrow> buf_id list \<Rightarrow> buf_id
     \<Rightarrow> ('a, 's, 'd) step" where
  "cblas_flat e arg ins gold st =
     (case (flat_contents (map (mem st) ins), mem st gold) of
        (Some xss, Flat cs) \<Rightarrow>
          (emit (Cblas 0 xss cs) st)\<lparr>mem := (mem st)(gold := Flat (cblas e arg xss cs))\<rparr>
      | _ \<Rightarrow> st\<lparr>failure := Some OutOfBounds\<rparr>)"

text \<open>
  The window of \<open>len\<close> elements at offset \<open>off\<close> of an array (the storage of one matrix,
  leading dimension times columns), and writing such a window back.
\<close>

definition slice :: "nat \<Rightarrow> nat \<Rightarrow> 'a list \<Rightarrow> 'a list" where
  "slice off len xs = take len (drop off xs)"

definition store :: "nat \<Rightarrow> nat \<Rightarrow> 'a list \<Rightarrow> 'a list \<Rightarrow> 'a list" where
  "store off len new xs =
     map (\<lambda>i. if off \<le> i \<and> i < off + len \<and> i - off < length new then new ! (i - off) else xs ! i)
       [0..<length xs]"

fun slices :: "(nat \<times> nat) list \<Rightarrow> 'a buffer list \<Rightarrow> 'a list list option" where
  "slices [] [] = Some []"
| "slices ((off, len) # ws) (Flat xs # bs) =
     (if off + len \<le> length xs then map_option ((#) (slice off len xs)) (slices ws bs) else None)"
| "slices _ _ = None"

text \<open>
  \<open>cblas_her2k<T>(..., hA.data() + b * stride_A, lda, hB.data() + b * stride_B, ldb, h_beta,
  hC_gold.data() + b * stride_C, ldc)\<close>: the routine works on the window of each array that
  starts at the batch offset. \<open>wins\<close> gives offset and length of the input windows, \<open>wout\<close>
  those of the in/out window. A window that leaves its array is an access out of range.
\<close>

definition cblas_strided :: "('a, 's, 'd) env \<Rightarrow> ('s, 'd) Arguments \<Rightarrow> buf_id list \<Rightarrow> buf_id
     \<Rightarrow> nat \<Rightarrow> (nat \<times> nat) list \<Rightarrow> nat \<times> nat \<Rightarrow> ('a, 's, 'd) step" where
  "cblas_strided e arg ins gold b wins wout st =
     (case (slices wins (map (mem st) ins), mem st gold) of
        (Some xss, Flat cs) \<Rightarrow>
          if fst wout + snd wout \<le> length cs
          then (emit (Cblas b xss (slice (fst wout) (snd wout) cs)) st)
                 \<lparr>mem := (mem st)(gold := Flat (store (fst wout) (snd wout)
                            (cblas e arg xss (slice (fst wout) (snd wout) cs)) cs))\<rparr>
          else st\<lparr>failure := Some OutOfBounds\<rparr>
      | _ \<Rightarrow> st\<lparr>failure := Some OutOfBounds\<rparr>)"

section \<open>testing_her_batched\<close>

definition her_batched_invalid_size :: "('s, 'd) Arguments \<Rightarrow> bool" where
  "her_batched_invalid_size arg =
     (N arg < 0 \<or> lda arg < N arg \<or> lda arg < 1 \<or> incx arg = 0 \<or> batch_count arg < 0)"

definition her_batched_quick_return :: "('a, 's, 'd) env \<Rightarrow> ('s, 'd) Arguments \<Rightarrow> ('a, 's, 'd) step" where
  "her_batched_quick_return e arg st =
     (let r = kernel_null_call e arg 1
                (if her_batched_invalid_size arg then HIPBLAS_STATUS_INVALID_VALUE
                 else HIPBLAS_STATUS_SUCCESS) st
      in return_status (fst r) (snd r))"

definition her_batched_check :: "('a, 's, 'd) env \<Rightarrow> ('s, 'd) Arguments \<Rightarrow> ('a, 's, 'd) step list" where
  "her_batched_check e arg =
     [hipblasSetPointerMode e HIPBLAS_POINTER_MODE_HOST,
      kernel_call e arg [HostVar (alpha arg)] [DX] DA,
      hipMemcpy e HA_host DA,
      hipMemcpy e DA HA,
      hipblasSetPointerMode e HIPBLAS_POINTER_MODE_DEVICE,
      kernel_call e arg [DeviceVar D_alpha] [DX] DA,
      hipMemcpy e HA_device DA,
      for_loop 0 (batch_count arg) (\<lambda>b. cblas_batch e arg HX HA_cpu (nat b)),
      block_if (unit_check arg)
        [unit_check_general HA_cpu HA_host,
         unit_check_general HA_cpu HA_host],
      block_if (norm_check arg)
        [norm_check_host e HA_cpu HA_host,
         norm_check_device e HA_cpu HA_device]]"

definition her_batched_timing :: "('a, 's, 'd::minus) env \<Rightarrow> ('s, 'd) Arguments
     \<Rightarrow> ('a, 's, 'd) step list" where
  "her_batched_timing e arg =
     [hipMemcpy e DA HA,
      hipblasGetStream e,
      hipblasSetPointerMode e HIPBLAS_POINTER_MODE_DEVICE,
      timing_loop e arg (kernel_call e arg [DeviceVar D_alpha] [DX] DA),
      stop_timer e,
      log_args]"

text \<open>Lines 41 to 88: the quick return, the buffers, their initial data and the copies to the device.\<close>

definition her_batched_setup :: "('a, 's, 'd) env \<Rightarrow> ('s, 'd) Arguments \<Rightarrow> ('a, 's, 'd) step list" where
  "her_batched_setup e argus =
     (let A_size = nat (lda argus * N argus);
          x_size = nat (N argus * \<bar>incx argus\<bar>);
          bc = nat (batch_count argus)
      in
        [hipblasLocalHandle,
         block_if (her_batched_invalid_size argus \<or> N argus = 0 \<or> batch_count argus = 0)
           [her_batched_quick_return e argus],
         alloc_batch e HA A_size bc,
         alloc_batch e HA_cpu A_size bc,
         alloc_batch e HA_host A_size bc,
         alloc_batch e HA_device A_size bc,
         alloc_batch e HX x_size bc,
         alloc_batch e DA A_size bc,
         alloc_batch e DX x_size bc,
         alloc_scalar D_alpha,
         memcheck e DA,
         memcheck e DX,
         hipblas_init e HA,
         hipblas_init e HX,
         host_assign HA_cpu HA,
         hipMemcpy e DA HA,
         hipMemcpy e DX HX,
         hipMemcpy_scalar e D_alpha (alpha argus)])"

definition testing_her_batched :: "('a, 's, 'd::minus) env \<Rightarrow> ('s, 'd) Arguments
     \<Rightarrow> ('a, 's, 'd) state" where
  "testing_her_batched e argus =
     exec (her_batched_setup e argus @
        [block_if (unit_check argus \<or> norm_check argus) (her_batched_check e argus),
         block_if (timing argus) (her_batched_timing e argus),
         return_status HIPBLAS_STATUS_SUCCESS])
       initial"

section \<open>testing_hpr\<close>

definition hpr_invalid_size :: "('s, 'd) Arguments \<Rightarrow> bool" where
  "hpr_invalid_size arg = (N arg < 0 \<or> incx arg = 0)"

definition hpr_quick_return :: "('a, 's, 'd) env \<Rightarrow> ('s, 'd) Arguments \<Rightarrow> ('a, 's, 'd) step" where
  "hpr_quick_return e arg st =
     (let r = kernel_null_call e arg 1
                (if hpr_invalid_size arg then HIPBLAS_STATUS_INVALID_VALUE
                 else HIPBLAS_STATUS_SUCCESS) st
      in return_void (snd r))"

definition hpr_check :: "('a, 's, 'd) env \<Rightarrow> ('s, 'd) Arguments \<Rightarrow> ('a, 's, 'd) step list" where
  "hpr_check e arg =
     [hipblasSetPointerMode e HIPBLAS_POINTER_MODE_HOST,
      kernel_call e arg [HostVar (alpha arg)] [DX] DA,
      hipMemcpy e HA_host DA,
      hipMemcpy e DA HA,
      hipblasSetPointerMode e HIPBLAS_POINTER_MODE_DEVICE,
      kernel_call e arg [DeviceVar D_alpha] [DX] DA,
      hipMemcpy e HA_device DA,
      cblas_flat e arg [HX] HA_cpu,
      block_if (unit_check arg)
        [unit_check_general HA_cpu HA_host,
         unit_check_general HA_cpu HA_device],
      block_if (norm_check arg)
        [norm_check_host e HA_cpu HA_host,
         norm_check_device e HA_cpu HA_device]]"

definition hpr_timing :: "('a, 's, 'd::minus) env \<Rightarrow> ('s, 'd) Arguments \<Rightarrow> ('a, 's, 'd) step list" where
  "hpr_timing e arg =
     [hipMemcpy e DA HA,
      hipblasGetStream e,
      hipblasSetPointerMode e HIPBLAS_POINTER_MODE_DEVICE,
      timing_loop e arg (kernel_call e arg [DeviceVar D_alpha] [DX] DA),
      stop_timer e,
      log_args]"

text \<open>Lines 47 to 93.\<close>

definition hpr_setup :: "('a, 's, 'd) env \<Rightarrow> ('s, 'd) Arguments \<Rightarrow> ('a, 's, 'd) step list" where
  "hpr_setup e arg =
     (let abs_incx = (if incx arg \<ge> 0 then incx arg else - incx arg);
          x_size = nat (N arg * abs_incx);
          A_size = nat (N arg * (N arg + 1) div 2)
      in
        [hipblasLocalHandle,
         block_if (hpr_invalid_size arg \<or> N arg = 0) [hpr_quick_return e arg],
         alloc e HA A_size,
         alloc e HA_cpu A_size,
         alloc e HA_host A_size,
         alloc e HA_device A_size,
         alloc e HX x_size,
         alloc e DA A_size,
         alloc e DX x_size,
         alloc_scalar D_alpha,
         hipblas_init e HA,
         hipblas_init e HX,
         host_assign HA_cpu HA,
         hipMemcpy e DA HA,
         hipMemcpy e DX HX,
         hipMemcpy_scalar e D_alpha (alpha arg)])"

definition testing_hpr :: "('a, 's, 'd::minus) env \<Rightarrow> ('s, 'd) Arguments \<Rightarrow> ('a, 's, 'd) state" where
  "testing_hpr e arg =
     exec (hpr_setup e arg @
        [block_if (unit_check arg \<or> norm_check arg) (hpr_check e arg),
         block_if (timing arg) (hpr_timing e arg)])
       initial"

definition testing_hpr_ret :: "('a, 's, 'd::minus) env \<Rightarrow> ('s, 'd) Arguments \<Rightarrow> ('a, 's, 'd) state" where
  "testing_hpr_ret e arg = (testing_hpr e arg)\<lparr>result := Some HIPBLAS_STATUS_SUCCESS\<rparr>"


section \<open>testing_her2k_strided_batched\<close>

definition her2k_strided_batched_invalid :: "('s, 'd) Arguments \<Rightarrow> bool" where
  "her2k_strided_batched_invalid arg =
     (N arg < 0 \<or> K arg < 0 \<or> ldc arg < N arg
      \<or> (transA arg = HIPBLAS_OP_N \<and> (lda arg < N arg \<or> ldb arg < N arg))
      \<or> (transA arg \<noteq> HIPBLAS_OP_N \<and> (lda arg < K arg \<or> ldb arg < K arg))
      \<or> batch_count arg < 0)"

definition K1 :: "('s, 'd) Arguments \<Rightarrow> int" where
  "K1 arg = (if transA arg = HIPBLAS_OP_N then K arg else N arg)"

definition stride_A :: "('a, 's, 'd) env \<Rightarrow> ('s, 'd) Arguments \<Rightarrow> int" where
  "stride_A e arg = scale_stride e (nat (lda arg * K1 arg)) (stride_scale arg)"

definition stride_B :: "('a, 's, 'd) env \<Rightarrow> ('s, 'd) Arguments \<Rightarrow> int" where
  "stride_B e arg = scale_stride e (nat (ldb arg * K1 arg)) (stride_scale arg)"

definition stride_C :: "('a, 's, 'd) env \<Rightarrow> ('s, 'd) Arguments \<Rightarrow> int" where
  "stride_C e arg = scale_stride e (nat (ldc arg * N arg)) (stride_scale arg)"

definition her2k_cblas_call :: "('a, 's, 'd) env \<Rightarrow> ('s, 'd) Arguments \<Rightarrow> int \<Rightarrow> ('a, 's, 'd) step" where
  "her2k_cblas_call e arg b =
     cblas_strided e arg [HA, HB] HC_gold (nat b)
       [(nat (b * stride_A e arg), nat (lda arg * K1 arg)),
        (nat (b * stride_B e arg), nat (ldb arg * K1 arg))]
       (nat (b * stride_C e arg), nat (ldc arg * N arg))"

definition her2k_strided_batched_check :: "('a, 's, 'd) env \<Rightarrow> ('s, 'd) Arguments
     \<Rightarrow> ('a, 's, 'd) step list" where
  "her2k_strided_batched_check e arg =
     [hipblasSetPointerMode e HIPBLAS_POINTER_MODE_HOST,
      kernel_call e arg [HostVar (alpha arg), HostVar (beta arg)] [DA, DB] DC,
      hipMemcpy e HC_host DC,
      hipMemcpy e DC HC_device,
      hipblasSetPointerMode e HIPBLAS_POINTER_MODE_DEVICE,
      kernel_call e arg [DeviceVar D_alpha, DeviceVar D_beta] [DA, DB] DC,
      hipMemcpy e HC_device DC,
      for_loop 0 (batch_count arg) (her2k_cblas_call e arg),
      block_if (unit_check arg)
        [unit_check_general HC_gold HC_host,
         unit_check_general HC_gold HC_device],
      block_if (norm_check arg)
        [norm_check_host e HC_gold HC_host,
         norm_check_device e HC_gold HC_device]]"

definition her2k_strided_batched_timing :: "('a, 's, 'd::minus) env \<Rightarrow> ('s, 'd) Arguments
     \<Rightarrow> ('a, 's, 'd) step list" where
  "her2k_strided_batched_timing e arg =
     [hipblasGetStream e,
      hipblasSetPointerMode e HIPBLAS_POINTER_MODE_DEVICE,
      timing_loop e arg
        (kernel_call e arg [DeviceVar D_alpha, DeviceVar D_beta] [DA, DB] DC),
      stop_timer e,
      log_args]"

text \<open>
  The strides and sizes are computed before the argument check in the source and used only
  after it.
\<close>

definition her2k_strided_batched_setup :: "('a, 's, 'd) env \<Rightarrow> ('s, 'd) Arguments
     \<Rightarrow> ('a, 's, 'd) step list" where
  "her2k_strided_batched_setup e arg =
     (let A_size = stride_A e arg * batch_count arg;
          B_size = stride_B e arg * batch_count arg;
          C_size = stride_C e arg * batch_count arg
      in
        [block_if (her2k_strided_batched_invalid arg) [return_void],
         block_if (batch_count arg = 0) [return_void],
         alloc_sized e HA A_size,
         alloc_sized e HB B_size,
         alloc_sized e HC_host C_size,
         alloc_sized e HC_device C_size,
         alloc_sized e HC_gold C_size,
         alloc_sized e DA A_size,
         alloc_sized e DB B_size,
         alloc_sized e DC C_size,
         alloc_scalar D_alpha,
         alloc_scalar D_beta,
         hipblasLocalHandle,
         hipblas_init e HA,
         hipblas_init e HB,
         hipblas_init e HC_host,
         host_assign HC_device HC_host,
         host_assign HC_gold HC_host,
         hipMemcpy e DA HA,
         hipMemcpy e DB HB,
         hipMemcpy e DC HC_host,
         hipMemcpy_scalar e D_alpha (alpha arg),
         hipMemcpy_scalar e D_beta (beta arg)])"

definition testing_her2k_strided_batched :: "('a, 's, 'd::minus) env \<Rightarrow> ('s, 'd) Arguments
     \<Rightarrow> ('a, 's, 'd) state" where
  "testing_her2k_strided_batched e arg =
     exec (her2k_strided_batched_setup e arg @
        [block_if (unit_check arg \<or> norm_check arg) (her2k_strided_batched_check e arg),
         block_if (timing arg) (her2k_strided_batched_timing e arg)])
       initial"

definition testing_her2k_strided_batched_ret :: "('a, 's, 'd::minus) env \<Rightarrow> ('s, 'd) Arguments
     \<Rightarrow> ('a, 's, 'd) state" where
  "testing_her2k_strided_batched_ret e arg =
     (testing_her2k_strided_batched e arg)\<lparr>result := Some HIPBLAS_STATUS_SUCCESS\<rparr>"

section \<open>testing_herk\<close>

definition herk_invalid :: "('s, 'd) Arguments \<Rightarrow> bool" where
  "herk_invalid arg =
     (N arg < 0 \<or> K arg < 0 \<or> ldc arg < N arg
      \<or> (transA arg = HIPBLAS_OP_N \<and> lda arg < N arg)
      \<or> (transA arg \<noteq> HIPBLAS_OP_N \<and> lda arg < K arg))"

definition herk_check :: "('a, 's, 'd) env \<Rightarrow> ('s, 'd) Arguments \<Rightarrow> ('a, 's, 'd) step list" where
  "herk_check e arg =
     [hipblasSetPointerMode e HIPBLAS_POINTER_MODE_HOST,
      kernel_call e arg [HostVar (alpha arg), HostVar (beta arg)] [DA] DC,
      hipMemcpy e HC_host DC,
      hipMemcpy e DC HC_device,
      hipblasSetPointerMode e HIPBLAS_POINTER_MODE_DEVICE,
      kernel_call e arg [DeviceVar D_alpha, DeviceVar D_beta] [DA] DC,
      hipMemcpy e HC_device DC,
      cblas_flat e arg [HA] HC_gold,
      block_if (unit_check arg)
        [unit_check_general HC_gold HC_host,
         unit_check_general HC_gold HC_device],
      block_if (norm_check arg)
        [norm_check_host e HC_gold HC_host,
         norm_check_device e HC_gold HC_device]]"

definition herk_timing :: "('a, 's, 'd::minus) env \<Rightarrow> ('s, 'd) Arguments \<Rightarrow> ('a, 's, 'd) step list" where
  "herk_timing e arg =
     [hipblasGetStream e,
      hipblasSetPointerMode e HIPBLAS_POINTER_MODE_DEVICE,
      timing_loop e arg
        (kernel_call e arg [DeviceVar D_alpha, DeviceVar D_beta] [DA] DC),
      stop_timer e,
      log_args]"

definition herk_setup :: "('a, 's, 'd) env \<Rightarrow> ('s, 'd) Arguments \<Rightarrow> ('a, 's, 'd) step list" where
  "herk_setup e arg =
     (let A_size = nat (lda arg * K1 arg);
          C_size = nat (ldc arg * N arg)
      in
        [block_if (herk_invalid arg) [return_void],
         alloc e HA A_size,
         alloc e HC_host C_size,
         alloc e HC_device C_size,
         alloc e HC_gold C_size,
         alloc e DA A_size,
         alloc e DC C_size,
         alloc_scalar D_alpha,
         alloc_scalar D_beta,
         hipblasLocalHandle,
         hipblas_init e HA,
         hipblas_init e HC_host,
         host_assign HC_device HC_host,
         host_assign HC_gold HC_host,
         hipMemcpy e DA HA,
         hipMemcpy e DC HC_host,
         hipMemcpy_scalar e D_alpha (alpha arg),
         hipMemcpy_scalar e D_beta (beta arg)])"

definition testing_herk :: "('a, 's, 'd::minus) env \<Rightarrow> ('s, 'd) Arguments \<Rightarrow> ('a, 's, 'd) state" where
  "testing_herk e arg =
     exec (herk_setup e arg @
        [block_if (unit_check arg \<or> norm_check arg) (herk_check e arg),
         block_if (timing arg) (herk_timing e arg)])
       initial"

definition testing_herk_ret :: "('a, 's, 'd::minus) env \<Rightarrow> ('s, 'd) Arguments \<Rightarrow> ('a, 's, 'd) state" where
  "testing_herk_ret e arg = (testing_herk e arg)\<lparr>result := Some HIPBLAS_STATUS_SUCCESS\<rparr>"


section \<open>Observations on a run\<close>

text \<open>The status the routine under test returns for the quick-return call with null pointers.\<close>

definition null_call :: "('a, 's, 'd) env \<Rightarrow> ('s, 'd) Arguments \<Rightarrow> hipblasStatus" where
  "null_call e arg = fst (kernel e arg HIPBLAS_POINTER_MODE_HOST [NullScalar] [Null] Null)"

text \<open>
  The whole trace of a quick return in \<open>testing_her_batched\<close> and \<open>testing_hpr\<close>: the handle,
  one call with null pointers, and the comparison of its status with the expected one.
\<close>

definition quick_return_trace :: "('a, 's, 'd) env \<Rightarrow> ('s, 'd) Arguments \<Rightarrow> hipblasStatus
     \<Rightarrow> ('a, 's, 'd) event list" where
  "quick_return_trace e arg expected =
     [CreateHandle,
      Kernel HIPBLAS_POINTER_MODE_HOST [NullScalar] [Null] Null (null_call e arg),
      ExpectStatus (null_call e arg) expected]"

section \<open>A concrete environment\<close>

text \<open>
  A small instance of the collaborators, on integers: the routine under test rejects a
  negative \<open>N\<close> or batch count and otherwise adds its first scalar to every element of the
  in/out buffer, and so does the reference routine.
\<close>

fun ex_scalar :: "int scalar_ptr list \<Rightarrow> int" where
  "ex_scalar (HostScalar v # _) = v"
| "ex_scalar (DeviceScalar (Some v) # _) = v"
| "ex_scalar _ = 0"

fun ex_update :: "int \<Rightarrow> int buffer \<Rightarrow> int buffer" where
  "ex_update a Null = Null"
| "ex_update a (Flat xs) = Flat (map ((+) a) xs)"
| "ex_update a (Batch xss) = Batch (map (map ((+) a)) xss)"

definition ex_kernel :: "(int, int) Arguments \<Rightarrow> hipblasPointerMode_t \<Rightarrow> int scalar_ptr list
     \<Rightarrow> int buffer list \<Rightarrow> int buffer \<Rightarrow> hipblasStatus \<times> int buffer" where
  "ex_kernel arg m ss ins out =
     (if N arg < 0 \<or> batch_count arg < 0 then (HIPBLAS_STATUS_INVALID_VALUE, out)
      else (HIPBLAS_STATUS_SUCCESS, ex_update (ex_scalar ss) out))"

definition ex_env :: "(int, int, int) env" where
  "ex_env = \<lparr> kernel = ex_kernel,
              cblas = (\<lambda>arg xss cs. map ((+) (alpha arg)) cs),
              init_value = (\<lambda>b i j. int i + int j),
              fresh = 0,
              runtime_ok = (\<lambda>n. True),
              clock = int,
              norm_check_general = (\<lambda>x y. if x = y then 0 else 1),
              scale_stride = (\<lambda>n s. int n * s) \<rparr>"

definition ex_arg :: "(int, int) Arguments" where
  "ex_arg = \<lparr> N = 2, K = 1, incx = 1, lda = 2, ldb = 2, ldc = 2, batch_count = 2,
              stride_scale = 1, uplo = CHR ''U'', transA = HIPBLAS_OP_N, alpha = 3, beta = 0,
              fortran = False, unit_check = True, norm_check = True, timing = True,
              cold_iters = 1, iters = 2 \<rparr>"

definition calls_succeed :: "('a, 's, 'd) env \<Rightarrow> ('s, 'd) Arguments \<Rightarrow> bool" where
  "calls_succeed e arg \<longleftrightarrow>
     (\<forall>n. runtime_ok e n)
     \<and> (\<forall>m ss ins out. fst (kernel e arg m ss ins out) = HIPBLAS_STATUS_SUCCESS)"

datatype scalar_kind = NullKind | HostKind | DeviceKind

fun kind_of_ptr :: "'s scalar_ptr \<Rightarrow> scalar_kind" where
  "kind_of_ptr NullScalar = NullKind"
| "kind_of_ptr (HostScalar v) = HostKind"
| "kind_of_ptr (DeviceScalar v) = DeviceKind"

fun kind_of_arg :: "'s scalar_arg \<Rightarrow> scalar_kind" where
  "kind_of_arg (HostVar v) = HostKind"
| "kind_of_arg (DeviceVar b) = DeviceKind"

datatype call_kind =
    TimerRead
  | KernelWith hipblasPointerMode_t "scalar_kind list"
  | PointerModeSet hipblasPointerMode_t
  | Logged
  | OtherCall

fun kind_of :: "('a, 's, 'd) event \<Rightarrow> call_kind" where
  "kind_of GetTime = TimerRead"
| "kind_of (Kernel m ss ins out r) = KernelWith m (map kind_of_ptr ss)"
| "kind_of (SetPointerMode m) = PointerModeSet m"
| "kind_of (LogArgs t h d) = Logged"
| "kind_of _ = OtherCall"

fun timing_event :: "('a, 's, 'd) event \<Rightarrow> bool" where
  "timing_event GetTime = True"
| "timing_event (Kernel m ss ins out r) = True"
| "timing_event _ = False"


definition timing_kinds :: "int \<Rightarrow> call_kind \<Rightarrow> nat \<Rightarrow> call_kind list" where
  "timing_kinds cold c n = concat (map (\<lambda>k. (if int k = cold then [TimerRead] else []) @ [c]) [0..<n])"


definition init_batch :: "('a, 's, 'd) env \<Rightarrow> buf_id \<Rightarrow> nat \<Rightarrow> nat \<Rightarrow> 'a buffer" where
  "init_batch e b n bc = Batch (map (\<lambda>i. map (init_value e b i) [0..<n]) [0..<bc])"

definition init_flat :: "('a, 's, 'd) env \<Rightarrow> buf_id \<Rightarrow> nat \<Rightarrow> 'a buffer" where
  "init_flat e b n = Flat (map (init_value e b 0) [0..<n])"

fun batch_of :: "'a buffer \<Rightarrow> 'a list list" where
  "batch_of (Batch xss) = xss"
| "batch_of _ = []"

fun is_batch :: "'a buffer \<Rightarrow> bool" where
  "is_batch (Batch xss) = True"
| "is_batch _ = False"

definition her_batched_valid :: "('s, 'd) Arguments \<Rightarrow> bool" where
  "her_batched_valid arg \<longleftrightarrow>
     \<not> her_batched_invalid_size arg \<and> N arg \<noteq> 0 \<and> batch_count arg \<noteq> 0"

definition her_batched_ready :: "('a, 's, 'd) env \<Rightarrow> ('s, 'd) Arguments \<Rightarrow> ('a, 's, 'd) state" where
  "her_batched_ready e arg = exec (her_batched_setup e arg) initial"

definition her_batched_A :: "('a, 's, 'd) env \<Rightarrow> ('s, 'd) Arguments \<Rightarrow> 'a buffer" where
  "her_batched_A e arg = init_batch e HA (nat (lda arg * N arg)) (nat (batch_count arg))"

definition her_batched_x :: "('a, 's, 'd) env \<Rightarrow> ('s, 'd) Arguments \<Rightarrow> 'a buffer" where
  "her_batched_x e arg = init_batch e HX (nat (N arg * \<bar>incx arg\<bar>)) (nat (batch_count arg))"

definition her_batched_checked :: "('a, 's, 'd) env \<Rightarrow> ('s, 'd) Arguments \<Rightarrow> ('a, 's, 'd) state" where
  "her_batched_checked e arg =
     exec [block_if (unit_check arg \<or> norm_check arg) (her_batched_check e arg)]
       (her_batched_ready e arg)"

definition her_batched_host_result :: "('a, 's, 'd) env \<Rightarrow> ('s, 'd) Arguments \<Rightarrow> 'a buffer" where
  "her_batched_host_result e arg =
     snd (kernel e arg HIPBLAS_POINTER_MODE_HOST [HostScalar (alpha arg)]
            [her_batched_x e arg] (her_batched_A e arg))"

definition her_batched_device_result :: "('a, 's, 'd) env \<Rightarrow> ('s, 'd) Arguments \<Rightarrow> 'a buffer" where
  "her_batched_device_result e arg =
     snd (kernel e arg HIPBLAS_POINTER_MODE_DEVICE [DeviceScalar (Some (alpha arg))]
            [her_batched_x e arg] (her_batched_A e arg))"

definition her_batched_gold :: "('a, 's, 'd) env \<Rightarrow> ('s, 'd) Arguments \<Rightarrow> 'a buffer" where
  "her_batched_gold e arg =
     Batch (map (\<lambda>b. cblas e arg [batch_of (her_batched_x e arg) ! b] (batch_of (her_batched_A e arg) ! b))
              [0..<nat (batch_count arg)])"

fun is_unit_check :: "('a, 's, 'd) event \<Rightarrow> bool" where
  "is_unit_check (UnitCheck g gc r rc) = True"
| "is_unit_check _ = False"

fun is_kernel :: "('a, 's, 'd) event \<Rightarrow> bool" where
  "is_kernel (Kernel m ss ins out r) = True"
| "is_kernel _ = False"

fun is_cblas :: "('a, 's, 'd) event \<Rightarrow> bool" where
  "is_cblas (Cblas b xs c) = True"
| "is_cblas _ = False"

fun is_log :: "('a, 's, 'd) event \<Rightarrow> bool" where
  "is_log (LogArgs t h d) = True"
| "is_log _ = False"

fun is_get_stream :: "('a, 's, 'd) event \<Rightarrow> bool" where
  "is_get_stream GetStream = True"
| "is_get_stream _ = False"


text \<open>What the timing block adds to a run that has not stopped.\<close>

definition timing_added :: "('a, 's, 'd::minus) env \<Rightarrow> ('s, 'd) Arguments \<Rightarrow> 's scalar_arg list
     \<Rightarrow> ('a, 's, 'd) state \<Rightarrow> ('a, 's, 'd) state \<Rightarrow> ('a, 's, 'd) event list
     \<Rightarrow> ('a, 's, 'd) event list \<Rightarrow> bool" where
  "timing_added e arg scs st st' pre T \<longleftrightarrow>
     trace st' = trace st @ pre @ [GetStream, SetPointerMode HIPBLAS_POINTER_MODE_DEVICE] @ T
                 @ [GetTime, LogArgs (gpu_time_used st') (hipblas_error_host st) (hipblas_error_device st)]
     \<and> list_all timing_event T
     \<and> map kind_of T = timing_kinds (cold_iters arg)
                         (KernelWith HIPBLAS_POINTER_MODE_DEVICE (map kind_of_arg scs))
                         (nat (cold_iters arg + iters arg))
     \<and> length T = nat (cold_iters arg + iters arg)
                  + (if 0 \<le> cold_iters arg \<and> 0 < iters arg then 1 else 0)
     \<and> gpu_time_used st'
         = (if 0 \<le> cold_iters arg \<and> 0 < iters arg
            then Some (clock e (length (trace st) + length pre + 2 + length T)
                       - clock e (length (trace st) + length pre + 2 + nat (cold_iters arg)))
            else map_option (\<lambda>t0. clock e (length (trace st) + length pre + 2 + length T) - t0)
                   (gpu_time_used st))
     \<and> failure st' = None"

text \<open>How the end of a run relates to the state after the correctness block.\<close>

definition timed_after :: "('a, 's, 'd::minus) env \<Rightarrow> ('s, 'd) Arguments \<Rightarrow> 's scalar_arg list
     \<Rightarrow> ('a, 's, 'd) event list \<Rightarrow> ('a, 's, 'd) state \<Rightarrow> ('a, 's, 'd) state \<Rightarrow> bool" where
  "timed_after e arg scs pre C F \<longleftrightarrow>
     (timing arg \<longrightarrow> (\<exists>T. timing_added e arg scs C F pre T))
     \<and> (\<not> timing arg \<longrightarrow> trace F = trace C \<and> failure F = failure C)
     \<and> (\<forall>b. b \<noteq> DA \<and> b \<noteq> DC \<longrightarrow> mem F b = mem C b)"



fun flat_of :: "'a buffer \<Rightarrow> 'a list" where
  "flat_of (Flat xs) = xs"
| "flat_of _ = []"

definition hpr_valid :: "('s, 'd) Arguments \<Rightarrow> bool" where
  "hpr_valid arg \<longleftrightarrow> \<not> hpr_invalid_size arg \<and> N arg \<noteq> 0"

definition hpr_ready :: "('a, 's, 'd) env \<Rightarrow> ('s, 'd) Arguments \<Rightarrow> ('a, 's, 'd) state" where
  "hpr_ready e arg = exec (hpr_setup e arg) initial"

definition hpr_A :: "('a, 's, 'd) env \<Rightarrow> ('s, 'd) Arguments \<Rightarrow> 'a buffer" where
  "hpr_A e arg = init_flat e HA (nat (N arg * (N arg + 1) div 2))"

definition hpr_x :: "('a, 's, 'd) env \<Rightarrow> ('s, 'd) Arguments \<Rightarrow> 'a buffer" where
  "hpr_x e arg = init_flat e HX (nat (N arg * (if incx arg \<ge> 0 then incx arg else - incx arg)))"

definition hpr_checked :: "('a, 's, 'd) env \<Rightarrow> ('s, 'd) Arguments \<Rightarrow> ('a, 's, 'd) state" where
  "hpr_checked e arg =
     exec [block_if (unit_check arg \<or> norm_check arg) (hpr_check e arg)] (hpr_ready e arg)"

definition hpr_host_result :: "('a, 's, 'd) env \<Rightarrow> ('s, 'd) Arguments \<Rightarrow> 'a buffer" where
  "hpr_host_result e arg =
     snd (kernel e arg HIPBLAS_POINTER_MODE_HOST [HostScalar (alpha arg)] [hpr_x e arg] (hpr_A e arg))"

definition hpr_device_result :: "('a, 's, 'd) env \<Rightarrow> ('s, 'd) Arguments \<Rightarrow> 'a buffer" where
  "hpr_device_result e arg =
     snd (kernel e arg HIPBLAS_POINTER_MODE_DEVICE [DeviceScalar (Some (alpha arg))]
            [hpr_x e arg] (hpr_A e arg))"

definition hpr_gold :: "('a, 's, 'd) env \<Rightarrow> ('s, 'd) Arguments \<Rightarrow> 'a buffer" where
  "hpr_gold e arg = Flat (cblas e arg [flat_of (hpr_x e arg)] (flat_of (hpr_A e arg)))"

definition herk_valid :: "('s, 'd) Arguments \<Rightarrow> bool" where
  "herk_valid arg \<longleftrightarrow> \<not> herk_invalid arg"

definition herk_ready :: "('a, 's, 'd) env \<Rightarrow> ('s, 'd) Arguments \<Rightarrow> ('a, 's, 'd) state" where
  "herk_ready e arg = exec (herk_setup e arg) initial"

definition herk_A :: "('a, 's, 'd) env \<Rightarrow> ('s, 'd) Arguments \<Rightarrow> 'a buffer" where
  "herk_A e arg = init_flat e HA (nat (lda arg * K1 arg))"

definition herk_C :: "('a, 's, 'd) env \<Rightarrow> ('s, 'd) Arguments \<Rightarrow> 'a buffer" where
  "herk_C e arg = init_flat e HC_host (nat (ldc arg * N arg))"

definition herk_checked :: "('a, 's, 'd) env \<Rightarrow> ('s, 'd) Arguments \<Rightarrow> ('a, 's, 'd) state" where
  "herk_checked e arg =
     exec [block_if (unit_check arg \<or> norm_check arg) (herk_check e arg)] (herk_ready e arg)"

definition herk_host_result :: "('a, 's, 'd) env \<Rightarrow> ('s, 'd) Arguments \<Rightarrow> 'a buffer" where
  "herk_host_result e arg =
     snd (kernel e arg HIPBLAS_POINTER_MODE_HOST [HostScalar (alpha arg), HostScalar (beta arg)]
            [herk_A e arg] (herk_C e arg))"

definition herk_device_result :: "('a, 's, 'd) env \<Rightarrow> ('s, 'd) Arguments \<Rightarrow> 'a buffer" where
  "herk_device_result e arg =
     snd (kernel e arg HIPBLAS_POINTER_MODE_DEVICE
            [DeviceScalar (Some (alpha arg)), DeviceScalar (Some (beta arg))]
            [herk_A e arg] (herk_C e arg))"

definition herk_gold :: "('a, 's, 'd) env \<Rightarrow> ('s, 'd) Arguments \<Rightarrow> 'a buffer" where
  "herk_gold e arg = Flat (cblas e arg [flat_of (herk_A e arg)] (flat_of (herk_C e arg)))"

text \<open>
  The contents of a strided array after the first \<open>n\<close> reference calls, when call \<open>k\<close>
  leaves \<open>f k\<close> in its window: the windows are written one after the other.
\<close>

primrec strided_gold :: "(nat \<Rightarrow> 'a list) \<Rightarrow> nat \<Rightarrow> nat \<Rightarrow> 'a list \<Rightarrow> nat \<Rightarrow> 'a list" where
  "strided_gold f sc wc cs 0 = cs"
| "strided_gold f sc wc cs (Suc n) = store (n * sc) wc (f n) (strided_gold f sc wc cs n)"

text \<open>The first elements of \<open>old\<close> replaced by those of \<open>new\<close>.\<close>

definition overwrite :: "'a list \<Rightarrow> 'a list \<Rightarrow> 'a list" where
  "overwrite new old = store 0 (length old) new old"

text \<open>
  Valid arguments of \<open>testing_her2k_strided_batched\<close>: they pass the argument check, the
  batch count is not zero, and each stride is at least the storage of one matrix (leading
  dimension times columns), so that the matrices of a batch do not overlap and lie within
  the arrays, whose size is stride times batch count.
\<close>

definition her2k_valid :: "('a, 's, 'd) env \<Rightarrow> ('s, 'd) Arguments \<Rightarrow> bool" where
  "her2k_valid e arg \<longleftrightarrow>
     \<not> her2k_strided_batched_invalid arg \<and> batch_count arg \<noteq> 0
     \<and> lda arg * K1 arg \<le> stride_A e arg
     \<and> ldb arg * K1 arg \<le> stride_B e arg
     \<and> ldc arg * N arg \<le> stride_C e arg"

definition her2k_ready :: "('a, 's, 'd) env \<Rightarrow> ('s, 'd) Arguments \<Rightarrow> ('a, 's, 'd) state" where
  "her2k_ready e arg = exec (her2k_strided_batched_setup e arg) initial"

definition her2k_A :: "('a, 's, 'd) env \<Rightarrow> ('s, 'd) Arguments \<Rightarrow> 'a buffer" where
  "her2k_A e arg = init_flat e HA (nat (stride_A e arg * batch_count arg))"

definition her2k_B :: "('a, 's, 'd) env \<Rightarrow> ('s, 'd) Arguments \<Rightarrow> 'a buffer" where
  "her2k_B e arg = init_flat e HB (nat (stride_B e arg * batch_count arg))"

definition her2k_C :: "('a, 's, 'd) env \<Rightarrow> ('s, 'd) Arguments \<Rightarrow> 'a buffer" where
  "her2k_C e arg = init_flat e HC_host (nat (stride_C e arg * batch_count arg))"

definition her2k_A_window :: "('a, 's, 'd) env \<Rightarrow> ('s, 'd) Arguments \<Rightarrow> nat \<Rightarrow> 'a list" where
  "her2k_A_window e arg k =
     slice (k * nat (stride_A e arg)) (nat (lda arg * K1 arg)) (flat_of (her2k_A e arg))"

definition her2k_B_window :: "('a, 's, 'd) env \<Rightarrow> ('s, 'd) Arguments \<Rightarrow> nat \<Rightarrow> 'a list" where
  "her2k_B_window e arg k =
     slice (k * nat (stride_B e arg)) (nat (ldb arg * K1 arg)) (flat_of (her2k_B e arg))"

definition her2k_C_window :: "('a, 's, 'd) env \<Rightarrow> ('s, 'd) Arguments \<Rightarrow> nat \<Rightarrow> 'a list" where
  "her2k_C_window e arg k =
     slice (k * nat (stride_C e arg)) (nat (ldc arg * N arg)) (flat_of (her2k_C e arg))"

text \<open>What the reference routine returns for batch element \<open>k\<close> of the initial data.\<close>

definition her2k_reference :: "('a, 's, 'd) env \<Rightarrow> ('s, 'd) Arguments \<Rightarrow> nat \<Rightarrow> 'a list" where
  "her2k_reference e arg k =
     cblas e arg [her2k_A_window e arg k, her2k_B_window e arg k] (her2k_C_window e arg k)"

definition her2k_gold :: "('a, 's, 'd) env \<Rightarrow> ('s, 'd) Arguments \<Rightarrow> 'a buffer" where
  "her2k_gold e arg =
     Flat (strided_gold (her2k_reference e arg) (nat (stride_C e arg)) (nat (ldc arg * N arg))
             (flat_of (her2k_C e arg)) (nat (batch_count arg)))"

definition her2k_checked :: "('a, 's, 'd) env \<Rightarrow> ('s, 'd) Arguments \<Rightarrow> ('a, 's, 'd) state" where
  "her2k_checked e arg =
     exec [block_if (unit_check arg \<or> norm_check arg) (her2k_strided_batched_check e arg)]
       (her2k_ready e arg)"

definition her2k_host_result :: "('a, 's, 'd) env \<Rightarrow> ('s, 'd) Arguments \<Rightarrow> 'a buffer" where
  "her2k_host_result e arg =
     snd (kernel e arg HIPBLAS_POINTER_MODE_HOST [HostScalar (alpha arg), HostScalar (beta arg)]
            [her2k_A e arg, her2k_B e arg] (her2k_C e arg))"

definition her2k_device_result :: "('a, 's, 'd) env \<Rightarrow> ('s, 'd) Arguments \<Rightarrow> 'a buffer" where
  "her2k_device_result e arg =
     snd (kernel e arg HIPBLAS_POINTER_MODE_DEVICE
            [DeviceScalar (Some (alpha arg)), DeviceScalar (Some (beta arg))]
            [her2k_A e arg, her2k_B e arg] (her2k_C e arg))"






section \<open>Sequencing\<close>

lemma exec_stopped: "stopped st \<Longrightarrow> exec fs st = st"
  by (cases fs) simp_all

lemma exec_append: "exec (fs @ gs) st = exec gs (exec fs st)"
  by (induction fs arbitrary: st) (simp_all add: exec_stopped)

text \<open>A counting loop runs its bodies in sequence.\<close>

lemma for_loop_exec:
  "for_loop i n body st = exec (map (\<lambda>k. body (i + int k)) [0..<nat (n - i)]) st"
proof (induction i n body st rule: for_loop.induct)
  case (1 i n body st)
  show ?case
  proof (cases "i < n")
    case False
    then show ?thesis by (simp add: for_loop.simps)
  next
    case True
    then have "nat (n - i) = Suc (nat (n - (i + 1)))" by simp
    then have up: "[0..<nat (n - i)] = 0 # map Suc [0..<nat (n - (i + 1))]"
      by (simp add: upt_conv_Cons map_Suc_upt del: upt_Suc)
    show ?thesis
    proof (cases "stopped st")
      case True
      then show ?thesis by (simp add: for_loop.simps exec_stopped)
    next
      case False
      with \<open>i < n\<close> 1 show ?thesis
        by (subst for_loop.simps) (simp add: up comp_def add.assoc)
    qed
  qed
qed

section \<open>The quick returns\<close>

lemmas quick_defs = Let_def block_if_def kernel_null_call_def return_status_def return_void_def
  emit_def hipblasLocalHandle_def initial_def stopped_def null_call_def quick_return_trace_def

lemma her_batched_quick:
  assumes "her_batched_invalid_size arg \<or> N arg = 0 \<or> batch_count arg = 0"
  shows "trace (testing_her_batched e arg) =
           quick_return_trace e arg (if her_batched_invalid_size arg then HIPBLAS_STATUS_INVALID_VALUE
                                     else HIPBLAS_STATUS_SUCCESS)"
    and "result (testing_her_batched e arg) = Some (null_call e arg)"
    and "mem (testing_her_batched e arg) = (\<lambda>_. Null)"
    and "failure (testing_her_batched e arg) = None"
  using assms by (simp_all add: testing_her_batched_def her_batched_setup_def her_batched_quick_return_def quick_defs)

lemma hpr_quick:
  assumes "hpr_invalid_size arg \<or> N arg = 0"
  shows "trace (testing_hpr e arg) =
           quick_return_trace e arg (if hpr_invalid_size arg then HIPBLAS_STATUS_INVALID_VALUE
                                     else HIPBLAS_STATUS_SUCCESS)"
    and "mem (testing_hpr e arg) = (\<lambda>_. Null)"
    and "failure (testing_hpr e arg) = None"
  using assms by (simp_all add: testing_hpr_def hpr_setup_def hpr_quick_return_def quick_defs)

lemma her2k_strided_batched_quick:
  assumes "her2k_strided_batched_invalid arg \<or> batch_count arg = 0"
  shows "trace (testing_her2k_strided_batched e arg) = []"
    and "mem (testing_her2k_strided_batched e arg) = (\<lambda>_. Null)"
    and "result (testing_her2k_strided_batched_ret e arg) = Some HIPBLAS_STATUS_SUCCESS"
proof -
  have "trace (testing_her2k_strided_batched e arg) = []
        \<and> mem (testing_her2k_strided_batched e arg) = (\<lambda>_. Null)"
  proof (cases "her2k_strided_batched_invalid arg")
    case True
    then show ?thesis by (simp add: testing_her2k_strided_batched_def her2k_strided_batched_setup_def quick_defs)
  next
    case False
    with assms have "batch_count arg = 0" by simp
    with False show ?thesis by (simp add: testing_her2k_strided_batched_def her2k_strided_batched_setup_def quick_defs)
  qed
  then show "trace (testing_her2k_strided_batched e arg) = []"
    and "mem (testing_her2k_strided_batched e arg) = (\<lambda>_. Null)" by simp_all
  show "result (testing_her2k_strided_batched_ret e arg) = Some HIPBLAS_STATUS_SUCCESS"
    by (simp add: testing_her2k_strided_batched_ret_def)
qed

lemma herk_quick:
  assumes "herk_invalid arg"
  shows "trace (testing_herk e arg) = []"
    and "mem (testing_herk e arg) = (\<lambda>_. Null)"
    and "result (testing_herk_ret e arg) = Some HIPBLAS_STATUS_SUCCESS"
  using assms by (simp_all add: testing_herk_def herk_setup_def testing_herk_ret_def quick_defs)

text \<open>
  C2, as the claim states it, fails: the claim has every driver observe the invalid-argument
  status for a negative \<open>N\<close>. \<open>testing_her2k_strided_batched\<close>, run at \<open>N = -1\<close>, returns
  without a single call (its trace is empty, so no status is observed), and its wrapper
  reports success.
\<close>

theorem negative_N_her2k_counterexample:
  "N (ex_arg\<lparr>N := - 1\<rparr>) < 0
   \<and> trace (testing_her2k_strided_batched ex_env (ex_arg\<lparr>N := - 1\<rparr>)) = []
   \<and> result (testing_her2k_strided_batched_ret ex_env (ex_arg\<lparr>N := - 1\<rparr>))
       = Some HIPBLAS_STATUS_SUCCESS"
  by (simp add: her2k_strided_batched_quick her2k_strided_batched_invalid_def ex_arg_def)

text \<open>
  C2, amended: for every negative \<open>N\<close> no driver allocates or writes a buffer.
  \<open>testing_her_batched\<close> and \<open>testing_hpr\<close> create the handle, call the routine once with null
  pointers for the scalar and the buffers, and expect \<open>HIPBLAS_STATUS_INVALID_VALUE\<close>, which
  differs from success; \<open>testing_her_batched\<close> returns the status the routine returned.
  \<open>testing_her2k_strided_batched\<close> and \<open>testing_herk\<close> return at once, without calling the
  routine or observing a status, and their wrappers return \<open>HIPBLAS_STATUS_SUCCESS\<close>.
\<close>

theorem negative_N_quick_return:
  "N arg < 0 \<Longrightarrow>
     trace (testing_her_batched e arg) = quick_return_trace e arg HIPBLAS_STATUS_INVALID_VALUE
     \<and> result (testing_her_batched e arg) = Some (null_call e arg)
     \<and> mem (testing_her_batched e arg) = (\<lambda>_. Null)
     \<and> trace (testing_hpr e arg) = quick_return_trace e arg HIPBLAS_STATUS_INVALID_VALUE
     \<and> mem (testing_hpr e arg) = (\<lambda>_. Null)
     \<and> HIPBLAS_STATUS_INVALID_VALUE \<noteq> HIPBLAS_STATUS_SUCCESS
     \<and> trace (testing_her2k_strided_batched e arg) = []
     \<and> mem (testing_her2k_strided_batched e arg) = (\<lambda>_. Null)
     \<and> result (testing_her2k_strided_batched_ret e arg) = Some HIPBLAS_STATUS_SUCCESS
     \<and> trace (testing_herk e arg) = []
     \<and> mem (testing_herk e arg) = (\<lambda>_. Null)
     \<and> result (testing_herk_ret e arg) = Some HIPBLAS_STATUS_SUCCESS"
  by (simp add: her_batched_quick hpr_quick her2k_strided_batched_quick herk_quick
        her_batched_invalid_size_def hpr_invalid_size_def her2k_strided_batched_invalid_def
        herk_invalid_def)

theorem negative_N_quick_return_witness:
  "N (ex_arg\<lparr>N := - 1\<rparr>) < 0
   \<and> trace (testing_her_batched ex_env (ex_arg\<lparr>N := - 1\<rparr>))
       = [CreateHandle,
          Kernel HIPBLAS_POINTER_MODE_HOST [NullScalar] [Null] Null HIPBLAS_STATUS_INVALID_VALUE,
          ExpectStatus HIPBLAS_STATUS_INVALID_VALUE HIPBLAS_STATUS_INVALID_VALUE]
   \<and> result (testing_her_batched ex_env (ex_arg\<lparr>N := - 1\<rparr>)) = Some HIPBLAS_STATUS_INVALID_VALUE
   \<and> trace (testing_hpr ex_env (ex_arg\<lparr>N := - 1\<rparr>))
       = [CreateHandle,
          Kernel HIPBLAS_POINTER_MODE_HOST [NullScalar] [Null] Null HIPBLAS_STATUS_INVALID_VALUE,
          ExpectStatus HIPBLAS_STATUS_INVALID_VALUE HIPBLAS_STATUS_INVALID_VALUE]
   \<and> trace (testing_herk ex_env (ex_arg\<lparr>N := - 1\<rparr>)) = []
   \<and> result (testing_herk_ret ex_env (ex_arg\<lparr>N := - 1\<rparr>)) = Some HIPBLAS_STATUS_SUCCESS"
  using negative_N_quick_return [of "ex_arg\<lparr>N := - 1\<rparr>" ex_env]
  by (simp add: quick_return_trace_def null_call_def ex_env_def ex_kernel_def ex_arg_def)

text \<open>
  C3, as the claim states it, fails: the claim has a negative batch count answered by an
  error status that the drivers' expectations tell apart from the success of a batch count
  of zero. \<open>testing_her2k_strided_batched\<close>, run at batch count \<open>-1\<close>, returns without a
  single call, exactly as it does at batch count \<open>0\<close>, and its wrapper reports success.
\<close>

theorem negative_batch_count_her2k_counterexample:
  "batch_count (ex_arg\<lparr>batch_count := - 1\<rparr>) < 0
   \<and> trace (testing_her2k_strided_batched ex_env (ex_arg\<lparr>batch_count := - 1\<rparr>)) = []
   \<and> trace (testing_her2k_strided_batched ex_env (ex_arg\<lparr>batch_count := 0\<rparr>)) = []
   \<and> result (testing_her2k_strided_batched_ret ex_env (ex_arg\<lparr>batch_count := - 1\<rparr>))
       = Some HIPBLAS_STATUS_SUCCESS"
  by (simp add: her2k_strided_batched_quick her2k_strided_batched_invalid_def ex_arg_def)

text \<open>
  C3, amended: in \<open>testing_her_batched\<close>, when the other arguments are valid
  (\<open>0 \<le> N \<le> lda\<close>, \<open>1 \<le> lda\<close>, \<open>incx \<noteq> 0\<close>), a batch count of zero and a negative batch
  count both lead to one call of the routine with null pointers and to no allocation and no
  buffer write; the driver expects \<open>HIPBLAS_STATUS_SUCCESS\<close> for zero and
  \<open>HIPBLAS_STATUS_INVALID_VALUE\<close> for a negative count. \<open>testing_her2k_strided_batched\<close> returns
  at once in both cases, without calling the routine or observing a status, and its wrapper
  returns \<open>HIPBLAS_STATUS_SUCCESS\<close>.
\<close>

theorem batch_count_quick_return:
  "0 \<le> N arg \<Longrightarrow> N arg \<le> lda arg \<Longrightarrow> 1 \<le> lda arg \<Longrightarrow> incx arg \<noteq> 0 \<Longrightarrow> batch_count arg \<le> 0 \<Longrightarrow>
     trace (testing_her_batched e arg)
       = quick_return_trace e arg (if batch_count arg = 0 then HIPBLAS_STATUS_SUCCESS
                                   else HIPBLAS_STATUS_INVALID_VALUE)
     \<and> result (testing_her_batched e arg) = Some (null_call e arg)
     \<and> mem (testing_her_batched e arg) = (\<lambda>_. Null)
     \<and> trace (testing_her2k_strided_batched e arg) = []
     \<and> mem (testing_her2k_strided_batched e arg) = (\<lambda>_. Null)
     \<and> result (testing_her2k_strided_batched_ret e arg) = Some HIPBLAS_STATUS_SUCCESS"
proof -
  assume a: "0 \<le> N arg" "N arg \<le> lda arg" "1 \<le> lda arg" "incx arg \<noteq> 0" "batch_count arg \<le> 0"
  then have q: "her_batched_invalid_size arg \<or> N arg = 0 \<or> batch_count arg = 0"
    by (auto simp add: her_batched_invalid_size_def)
  from a have i: "her_batched_invalid_size arg \<longleftrightarrow> batch_count arg \<noteq> 0"
    by (auto simp add: her_batched_invalid_size_def)
  from a have k: "her2k_strided_batched_invalid arg \<or> batch_count arg = 0"
    by (auto simp add: her2k_strided_batched_invalid_def)
  show ?thesis
    using her_batched_quick [OF q, of e] her2k_strided_batched_quick [OF k, of e] i by auto
qed

theorem batch_count_quick_return_witness:
  "0 \<le> N (ex_arg\<lparr>batch_count := 0\<rparr>)
   \<and> N (ex_arg\<lparr>batch_count := 0\<rparr>) \<le> lda (ex_arg\<lparr>batch_count := 0\<rparr>)
   \<and> 1 \<le> lda (ex_arg\<lparr>batch_count := 0\<rparr>)
   \<and> incx (ex_arg\<lparr>batch_count := 0\<rparr>) \<noteq> 0
   \<and> batch_count (ex_arg\<lparr>batch_count := 0\<rparr>) \<le> 0
   \<and> trace (testing_her_batched ex_env (ex_arg\<lparr>batch_count := 0\<rparr>))
       = [CreateHandle,
          Kernel HIPBLAS_POINTER_MODE_HOST [NullScalar] [Null] Null HIPBLAS_STATUS_SUCCESS,
          ExpectStatus HIPBLAS_STATUS_SUCCESS HIPBLAS_STATUS_SUCCESS]
   \<and> trace (testing_her_batched ex_env (ex_arg\<lparr>batch_count := - 1\<rparr>))
       = [CreateHandle,
          Kernel HIPBLAS_POINTER_MODE_HOST [NullScalar] [Null] Null HIPBLAS_STATUS_INVALID_VALUE,
          ExpectStatus HIPBLAS_STATUS_INVALID_VALUE HIPBLAS_STATUS_INVALID_VALUE]
   \<and> trace (testing_her2k_strided_batched ex_env (ex_arg\<lparr>batch_count := 0\<rparr>)) = []"
  using batch_count_quick_return [of "ex_arg\<lparr>batch_count := 0\<rparr>" ex_env]
        batch_count_quick_return [of "ex_arg\<lparr>batch_count := - 1\<rparr>" ex_env]
  by (simp add: quick_return_trace_def null_call_def ex_env_def ex_kernel_def ex_arg_def)

text \<open>
  C10, as the claim states it, fails: the claim has \<open>N = 0\<close> with a nonzero increment and a
  non-negative batch count be a success. \<open>testing_her_batched\<close>, run at \<open>N = 0\<close>, \<open>incx = 1\<close>,
  batch count \<open>2\<close> and \<open>lda = 0\<close>, expects \<open>HIPBLAS_STATUS_INVALID_VALUE\<close>.
\<close>

theorem zero_N_her_batched_counterexample:
  "N (ex_arg\<lparr>N := 0, lda := 0\<rparr>) = 0
   \<and> incx (ex_arg\<lparr>N := 0, lda := 0\<rparr>) \<noteq> 0
   \<and> 0 \<le> batch_count (ex_arg\<lparr>N := 0, lda := 0\<rparr>)
   \<and> trace (testing_her_batched ex_env (ex_arg\<lparr>N := 0, lda := 0\<rparr>))
       = [CreateHandle,
          Kernel HIPBLAS_POINTER_MODE_HOST [NullScalar] [Null] Null HIPBLAS_STATUS_SUCCESS,
          ExpectStatus HIPBLAS_STATUS_SUCCESS HIPBLAS_STATUS_INVALID_VALUE]"
  by (simp add: her_batched_quick her_batched_invalid_size_def quick_return_trace_def null_call_def
        ex_env_def ex_kernel_def ex_arg_def)

text \<open>
  C10, amended: for \<open>N = 0\<close> with a nonzero increment and a non-negative batch count,
  \<open>testing_hpr\<close> and \<open>testing_her_batched\<close> create the handle, call the routine once with null
  pointers for the scalar and the buffers, and return: no allocation, no initialisation, no
  reference computation and no comparison take place, and no buffer exists. \<open>testing_hpr\<close>
  expects \<open>HIPBLAS_STATUS_SUCCESS\<close>; \<open>testing_her_batched\<close> expects
  \<open>HIPBLAS_STATUS_SUCCESS\<close> when \<open>lda \<ge> 1\<close> and \<open>HIPBLAS_STATUS_INVALID_VALUE\<close> when
  \<open>lda < 1\<close>.
\<close>

theorem zero_N_quick_return:
  "N arg = 0 \<Longrightarrow> incx arg \<noteq> 0 \<Longrightarrow> 0 \<le> batch_count arg \<Longrightarrow>
     trace (testing_hpr e arg) = quick_return_trace e arg HIPBLAS_STATUS_SUCCESS
     \<and> mem (testing_hpr e arg) = (\<lambda>_. Null)
     \<and> trace (testing_her_batched e arg)
         = quick_return_trace e arg (if lda arg < 1 then HIPBLAS_STATUS_INVALID_VALUE
                                     else HIPBLAS_STATUS_SUCCESS)
     \<and> result (testing_her_batched e arg) = Some (null_call e arg)
     \<and> mem (testing_her_batched e arg) = (\<lambda>_. Null)"
proof -
  assume a: "N arg = 0" "incx arg \<noteq> 0" "0 \<le> batch_count arg"
  then have i: "her_batched_invalid_size arg \<longleftrightarrow> lda arg < 1"
    by (auto simp add: her_batched_invalid_size_def)
  from a have h: "\<not> hpr_invalid_size arg"
    by (simp add: hpr_invalid_size_def)
  show ?thesis
    using her_batched_quick [of arg e] hpr_quick [of arg e] a(1) i h by auto
qed

theorem zero_N_quick_return_witness:
  "N (ex_arg\<lparr>N := 0\<rparr>) = 0
   \<and> incx (ex_arg\<lparr>N := 0\<rparr>) \<noteq> 0
   \<and> 0 \<le> batch_count (ex_arg\<lparr>N := 0\<rparr>)
   \<and> trace (testing_hpr ex_env (ex_arg\<lparr>N := 0\<rparr>))
       = [CreateHandle,
          Kernel HIPBLAS_POINTER_MODE_HOST [NullScalar] [Null] Null HIPBLAS_STATUS_SUCCESS,
          ExpectStatus HIPBLAS_STATUS_SUCCESS HIPBLAS_STATUS_SUCCESS]
   \<and> trace (testing_her_batched ex_env (ex_arg\<lparr>N := 0\<rparr>))
       = [CreateHandle,
          Kernel HIPBLAS_POINTER_MODE_HOST [NullScalar] [Null] Null HIPBLAS_STATUS_SUCCESS,
          ExpectStatus HIPBLAS_STATUS_SUCCESS HIPBLAS_STATUS_SUCCESS]"
  using zero_N_quick_return [of "ex_arg\<lparr>N := 0\<rparr>" ex_env]
  by (simp add: quick_return_trace_def null_call_def ex_env_def ex_kernel_def ex_arg_def)

lemma kernel_call_ok:
  assumes "calls_succeed e arg"
  shows "kernel_call e arg scalars ins out st =
           st\<lparr>trace := trace st @ [Kernel (pointer_mode st) (map (scalar_ptr_of st) scalars)
                                      (map (mem st) ins) (mem st out) HIPBLAS_STATUS_SUCCESS],
               mem := (mem st)(out := snd (kernel e arg (pointer_mode st)
                                      (map (scalar_ptr_of st) scalars) (map (mem st) ins) (mem st out)))\<rparr>"
  using assms by (simp add: kernel_call_def calls_succeed_def Let_def emit_def)






lemma checked_ok:
  assumes "calls_succeed e arg"
  shows "checked e ev f st = f (st\<lparr>trace := trace st @ [ev]\<rparr>)"
  using assms by (simp add: checked_def calls_succeed_def emit_def)


lemma fill_fresh_batch:
  "fill f (Batch (replicate bc (replicate n x))) = Batch (map (\<lambda>i. map (f i) [0..<n]) [0..<bc])"
  by simp

lemma fill_fresh_flat: "fill f (Flat (replicate n x)) = Flat (map (f 0) [0..<n])"
  by simp

text \<open>The reference loop over a batch of separate arrays.\<close>

lemma cblas_batch_steps:
  assumes "mem st x = Batch xs" "mem st gold = Batch cs" "x \<noteq> gold" "\<not> stopped st"
    and "n \<le> length xs" "n \<le> length cs"
  shows "exec (map (cblas_batch e arg x gold) [0..<n]) st =
           st\<lparr>trace := trace st @ map (\<lambda>b. Cblas b [xs ! b] (cs ! b)) [0..<n],
               mem := (mem st)(gold := Batch (map (\<lambda>b. if b < n then cblas e arg [xs ! b] (cs ! b)
                                                         else cs ! b) [0..<length cs]))\<rparr>"
  using assms(5,6)
proof (induction n)
  case 0
  have "map ((!) cs) [0..<length cs] = cs" by (rule map_nth)
  with assms(2) have "(mem st)(gold := Batch (map ((!) cs) [0..<length cs])) = mem st"
    by (simp add: fun_upd_idem)
  then show ?case by simp
next
  case (Suc n)
  let ?S = "st\<lparr>trace := trace st @ map (\<lambda>b. Cblas b [xs ! b] (cs ! b)) [0..<n],
               mem := (mem st)(gold := Batch (map (\<lambda>b. if b < n then cblas e arg [xs ! b] (cs ! b)
                                                         else cs ! b) [0..<length cs]))\<rparr>"
  have IH: "exec (map (cblas_batch e arg x gold) [0..<n]) st = ?S"
    by (rule Suc.IH) (use Suc.prems in simp_all)
  have ns: "\<not> stopped ?S" using assms(4) by (simp add: stopped_def)
  have upd: "(map (\<lambda>b. if b < n then cblas e arg [xs ! b] (cs ! b) else cs ! b) [0..<length cs])
               [n := cblas e arg [xs ! n] (cs ! n)]
             = map (\<lambda>b. if b < Suc n then cblas e arg [xs ! b] (cs ! b) else cs ! b) [0..<length cs]"
    by (rule nth_equalityI) (auto simp add: nth_list_update less_Suc_eq)
  have step: "cblas_batch e arg x gold n ?S =
              st\<lparr>trace := trace st @ map (\<lambda>b. Cblas b [xs ! b] (cs ! b)) [0..<Suc n],
               mem := (mem st)(gold := Batch (map (\<lambda>b. if b < Suc n then cblas e arg [xs ! b] (cs ! b)
                                                         else cs ! b) [0..<length cs]))\<rparr>"
    using assms(1,3) Suc.prems by (simp add: cblas_batch_def emit_def upd)
  have "exec (map (cblas_batch e arg x gold) [0..<Suc n]) st
          = exec [cblas_batch e arg x gold n] (exec (map (cblas_batch e arg x gold) [0..<n]) st)"
    by (simp add: exec_append)
  also have "\<dots> = exec [cblas_batch e arg x gold n] ?S" by (simp only: IH)
  also have "\<dots> = cblas_batch e arg x gold n ?S" using ns by simp
  finally show ?case by (simp only: step)
qed

lemma cblas_batch_loop:
  assumes "mem st x = Batch xs" "mem st gold = Batch cs" "x \<noteq> gold" "\<not> stopped st"
    and "nat n \<le> length xs" "nat n \<le> length cs"
  shows "for_loop 0 n (\<lambda>b. cblas_batch e arg x gold (nat b)) st =
           st\<lparr>trace := trace st @ map (\<lambda>b. Cblas b [xs ! b] (cs ! b)) [0..<nat n],
               mem := (mem st)(gold := Batch (map (\<lambda>b. if b < nat n then cblas e arg [xs ! b] (cs ! b)
                                                         else cs ! b) [0..<length cs]))\<rparr>"
  using cblas_batch_steps [OF assms] by (simp add: for_loop_exec)



lemmas step_defs = block_if_def emit_def stopped_def hipblasLocalHandle_def alloc_def alloc_batch_def
  alloc_sized_def alloc_scalar_def memcheck_def hipblas_init_def host_assign_def hipMemcpy_def
  hipMemcpy_scalar_def hipblasSetPointerMode_def hipblasGetStream_def unit_check_general_def
  norm_check_host_def norm_check_device_def return_void_def return_status_def

lemma her_batched_ready_fields:
  assumes v: "her_batched_valid arg" and ok: "calls_succeed e arg"
  shows "trace (her_batched_ready e arg) =
           [CreateHandle,
            AllocBatch HA (nat (lda arg * N arg)) (nat (batch_count arg)),
            AllocBatch HA_cpu (nat (lda arg * N arg)) (nat (batch_count arg)),
            AllocBatch HA_host (nat (lda arg * N arg)) (nat (batch_count arg)),
            AllocBatch HA_device (nat (lda arg * N arg)) (nat (batch_count arg)),
            AllocBatch HX (nat (N arg * \<bar>incx arg\<bar>)) (nat (batch_count arg)),
            AllocBatch DA (nat (lda arg * N arg)) (nat (batch_count arg)),
            AllocBatch DX (nat (N arg * \<bar>incx arg\<bar>)) (nat (batch_count arg)),
            Alloc D_alpha 1, Memcheck DA, Memcheck DX, InitData HA, InitData HX,
            HostAssign HA_cpu HA, Memcpy DA HA, Memcpy DX HX, MemcpyScalar D_alpha]"
    and "mem (her_batched_ready e arg) HA = her_batched_A e arg"
    and "mem (her_batched_ready e arg) HA_cpu = her_batched_A e arg"
    and "mem (her_batched_ready e arg) DA = her_batched_A e arg"
    and "mem (her_batched_ready e arg) HX = her_batched_x e arg"
    and "mem (her_batched_ready e arg) DX = her_batched_x e arg"
    and "dscal (her_batched_ready e arg) D_alpha = Some (alpha arg)"
    and "pointer_mode (her_batched_ready e arg) = HIPBLAS_POINTER_MODE_HOST"
    and "failure (her_batched_ready e arg) = None"
    and "finished (her_batched_ready e arg) = False"
    and "result (her_batched_ready e arg) = None"
    and "gpu_time_used (her_batched_ready e arg) = None"
    and "hipblas_error_host (her_batched_ready e arg) = None"
    and "hipblas_error_device (her_batched_ready e arg) = None"
  using v
  by (simp_all add: her_batched_ready_def her_batched_setup_def her_batched_valid_def Let_def
        initial_def step_defs checked_ok [OF ok] her_batched_A_def her_batched_x_def init_batch_def)

lemma cblas_batch_full_loop:
  assumes "is_batch (mem st x)" "is_batch (mem st gold)" "x \<noteq> gold" "\<not> stopped st"
    and "length (batch_of (mem st x)) = nat n" "length (batch_of (mem st gold)) = nat n"
  shows "for_loop 0 n (\<lambda>b. cblas_batch e arg x gold (nat b)) st =
           st\<lparr>trace := trace st @ map (\<lambda>b. Cblas b [batch_of (mem st x) ! b] (batch_of (mem st gold) ! b))
                                      [0..<nat n],
               mem := (mem st)(gold := Batch (map (\<lambda>b. cblas e arg [batch_of (mem st x) ! b]
                                                         (batch_of (mem st gold) ! b)) [0..<nat n]))\<rparr>"
proof -
  obtain xs cs where m: "mem st x = Batch xs" "mem st gold = Batch cs"
    using assms(1,2) by (cases "mem st x"; cases "mem st gold") simp_all
  with assms(5,6) have l: "length xs = nat n" "length cs = nat n" by simp_all
  have eq: "map (\<lambda>b. if b < nat n then cblas e arg [xs ! b] (cs ! b) else cs ! b) [0..<length cs]
        = map (\<lambda>b. cblas e arg [xs ! b] (cs ! b)) [0..<nat n]"
    using l by (intro nth_equalityI) simp_all
  have "for_loop 0 n (\<lambda>b. cblas_batch e arg x gold (nat b)) st =
           st\<lparr>trace := trace st @ map (\<lambda>b. Cblas b [xs ! b] (cs ! b)) [0..<nat n],
               mem := (mem st)(gold := Batch (map (\<lambda>b. if b < nat n then cblas e arg [xs ! b] (cs ! b)
                                                         else cs ! b) [0..<length cs]))\<rparr>"
    using cblas_batch_loop [OF m assms(3,4), of n e arg] l by simp
  then show ?thesis
    unfolding eq by (simp add: m)
qed

lemma her_batched_shapes [simp]:
  "is_batch (her_batched_A e arg)" "is_batch (her_batched_x e arg)"
  "length (batch_of (her_batched_A e arg)) = nat (batch_count arg)"
  "length (batch_of (her_batched_x e arg)) = nat (batch_count arg)"
  by (simp_all add: her_batched_A_def her_batched_x_def init_batch_def)

lemma her_batched_checked_fields:
  assumes v: "her_batched_valid arg" and ok: "calls_succeed e arg"
    and c: "unit_check arg \<or> norm_check arg"
  shows "trace (her_batched_checked e arg) =
           trace (her_batched_ready e arg) @
           [SetPointerMode HIPBLAS_POINTER_MODE_HOST,
            Kernel HIPBLAS_POINTER_MODE_HOST [HostScalar (alpha arg)] [her_batched_x e arg]
              (her_batched_A e arg) HIPBLAS_STATUS_SUCCESS,
            Memcpy HA_host DA, Memcpy DA HA,
            SetPointerMode HIPBLAS_POINTER_MODE_DEVICE,
            Kernel HIPBLAS_POINTER_MODE_DEVICE [DeviceScalar (Some (alpha arg))] [her_batched_x e arg]
              (her_batched_A e arg) HIPBLAS_STATUS_SUCCESS,
            Memcpy HA_device DA] @
           map (\<lambda>b. Cblas b [batch_of (her_batched_x e arg) ! b] (batch_of (her_batched_A e arg) ! b))
             [0..<nat (batch_count arg)] @
           (if unit_check arg
            then [UnitCheck HA_cpu (her_batched_gold e arg) HA_host (her_batched_host_result e arg),
                  UnitCheck HA_cpu (her_batched_gold e arg) HA_host (her_batched_host_result e arg)]
            else []) @
           (if norm_check arg
            then [NormCheck HA_cpu (her_batched_gold e arg) HA_host (her_batched_host_result e arg),
                  NormCheck HA_cpu (her_batched_gold e arg) HA_device (her_batched_device_result e arg)]
            else [])"
    and "mem (her_batched_checked e arg) HA = her_batched_A e arg"
    and "mem (her_batched_checked e arg) HA_host = her_batched_host_result e arg"
    and "mem (her_batched_checked e arg) HA_device = her_batched_device_result e arg"
    and "mem (her_batched_checked e arg) HA_cpu = her_batched_gold e arg"
    and "\<not> stopped (her_batched_checked e arg)"
    and "result (her_batched_checked e arg) = None"
    and "gpu_time_used (her_batched_checked e arg) = None"
    and "hipblas_error_host (her_batched_checked e arg)
           = (if norm_check arg
              then Some (norm_check_general e (her_batched_gold e arg) (her_batched_host_result e arg))
              else None)"
    and "hipblas_error_device (her_batched_checked e arg)
           = (if norm_check arg
              then Some (norm_check_general e (her_batched_gold e arg) (her_batched_device_result e arg))
              else None)"
  using c
  by (simp_all add: her_batched_checked_def her_batched_check_def step_defs checked_ok [OF ok]
        kernel_call_ok [OF ok] her_batched_ready_fields [OF v ok] cblas_batch_full_loop
        her_batched_host_result_def her_batched_device_result_def her_batched_gold_def)

lemma timing_event_not:
  "timing_event ev \<Longrightarrow> \<not> is_unit_check ev \<and> \<not> is_cblas ev \<and> \<not> is_log ev \<and> \<not> is_get_stream ev"
  by (cases ev) simp_all

lemma timing_events_filter:
  assumes "list_all timing_event T"
  shows "filter is_unit_check T = []" "filter is_cblas T = []" "filter is_log T = []"
    "list_all (\<lambda>ev. \<not> is_get_stream ev) T"
  using assms timing_event_not by (auto simp add: list_all_iff filter_empty_conv)








text \<open>What follows from \<open>timing_added\<close> for the observations used below.\<close>

lemma timing_added_filters:
  assumes "timing_added e arg scs st st' pre T"
    and "filter is_unit_check pre = []" "filter is_cblas pre = []" "filter is_log pre = []"
  shows "filter is_unit_check (trace st') = filter is_unit_check (trace st)"
    and "filter is_cblas (trace st') = filter is_cblas (trace st)"
    and "filter is_log (trace st')
           = filter is_log (trace st)
             @ [LogArgs (gpu_time_used st') (hipblas_error_host st) (hipblas_error_device st)]"
  using assms timing_events_filter [of T] by (simp_all add: timing_added_def)

lemma timing_added_kernels:
  assumes "timing_added e arg scs st st' pre T"
    and "2 \<le> length (filter is_kernel (trace st))"
  shows "take 2 (filter is_kernel (trace st')) = take 2 (filter is_kernel (trace st))"
  using assms by (simp add: timing_added_def)




lemma timed_after_kernels:
  assumes "timed_after e arg scs pre C F" "2 \<le> length (filter is_kernel (trace C))"
  shows "take 2 (filter is_kernel (trace F)) = take 2 (filter is_kernel (trace C))"
proof (cases "timing arg")
  case True
  with assms(1) obtain T where "timing_added e arg scs C F pre T"
    unfolding timed_after_def by blast
  then show ?thesis using assms(2) by (rule timing_added_kernels)
next
  case False
  with assms(1) have "trace F = trace C" unfolding timed_after_def by blast
  then show ?thesis by simp
qed






lemma her_batched_checked_calls:
  assumes v: "her_batched_valid arg" and ok: "calls_succeed e arg"
    and c: "unit_check arg \<or> norm_check arg"
  shows "filter is_kernel (trace (her_batched_checked e arg)) =
           [Kernel HIPBLAS_POINTER_MODE_HOST [HostScalar (alpha arg)] [her_batched_x e arg]
              (her_batched_A e arg) HIPBLAS_STATUS_SUCCESS,
            Kernel HIPBLAS_POINTER_MODE_DEVICE [DeviceScalar (Some (alpha arg))] [her_batched_x e arg]
              (her_batched_A e arg) HIPBLAS_STATUS_SUCCESS]"
    and "filter is_cblas (trace (her_batched_checked e arg)) =
           map (\<lambda>b. Cblas b [batch_of (her_batched_x e arg) ! b] (batch_of (her_batched_A e arg) ! b))
             [0..<nat (batch_count arg)]"
  using c her_batched_checked_fields(1) [OF v ok] her_batched_ready_fields(1) [OF v ok]
  by (simp_all add: filter_map comp_def)







lemma hpr_ready_fields:
  assumes v: "hpr_valid arg" and ok: "calls_succeed e arg"
  shows "trace (hpr_ready e arg) =
           [CreateHandle,
            Alloc HA (nat (N arg * (N arg + 1) div 2)),
            Alloc HA_cpu (nat (N arg * (N arg + 1) div 2)),
            Alloc HA_host (nat (N arg * (N arg + 1) div 2)),
            Alloc HA_device (nat (N arg * (N arg + 1) div 2)),
            Alloc HX (nat (N arg * (if incx arg \<ge> 0 then incx arg else - incx arg))),
            Alloc DA (nat (N arg * (N arg + 1) div 2)),
            Alloc DX (nat (N arg * (if incx arg \<ge> 0 then incx arg else - incx arg))),
            Alloc D_alpha 1, InitData HA, InitData HX,
            HostAssign HA_cpu HA, Memcpy DA HA, Memcpy DX HX, MemcpyScalar D_alpha]"
    and "mem (hpr_ready e arg) HA = hpr_A e arg"
    and "mem (hpr_ready e arg) HA_cpu = hpr_A e arg"
    and "mem (hpr_ready e arg) DA = hpr_A e arg"
    and "mem (hpr_ready e arg) HX = hpr_x e arg"
    and "mem (hpr_ready e arg) DX = hpr_x e arg"
    and "dscal (hpr_ready e arg) D_alpha = Some (alpha arg)"
    and "pointer_mode (hpr_ready e arg) = HIPBLAS_POINTER_MODE_HOST"
    and "failure (hpr_ready e arg) = None"
    and "finished (hpr_ready e arg) = False"
    and "result (hpr_ready e arg) = None"
    and "gpu_time_used (hpr_ready e arg) = None"
    and "hipblas_error_host (hpr_ready e arg) = None"
    and "hipblas_error_device (hpr_ready e arg) = None"
  using v
  by (simp_all add: hpr_ready_def hpr_setup_def hpr_valid_def Let_def
        initial_def step_defs checked_ok [OF ok] hpr_A_def hpr_x_def init_flat_def)

lemma cblas_flat_one:
  assumes "mem st x = Flat xs" "mem st gold = Flat cs"
  shows "cblas_flat e arg [x] gold st =
           st\<lparr>trace := trace st @ [Cblas 0 [xs] cs],
               mem := (mem st)(gold := Flat (cblas e arg [xs] cs))\<rparr>"
  using assms by (simp add: cblas_flat_def emit_def)

lemma hpr_checked_fields:
  assumes v: "hpr_valid arg" and ok: "calls_succeed e arg"
    and c: "unit_check arg \<or> norm_check arg"
  shows "trace (hpr_checked e arg) =
           trace (hpr_ready e arg) @
           [SetPointerMode HIPBLAS_POINTER_MODE_HOST,
            Kernel HIPBLAS_POINTER_MODE_HOST [HostScalar (alpha arg)] [hpr_x e arg]
              (hpr_A e arg) HIPBLAS_STATUS_SUCCESS,
            Memcpy HA_host DA, Memcpy DA HA,
            SetPointerMode HIPBLAS_POINTER_MODE_DEVICE,
            Kernel HIPBLAS_POINTER_MODE_DEVICE [DeviceScalar (Some (alpha arg))] [hpr_x e arg]
              (hpr_A e arg) HIPBLAS_STATUS_SUCCESS,
            Memcpy HA_device DA,
            Cblas 0 [flat_of (hpr_x e arg)] (flat_of (hpr_A e arg))] @
           (if unit_check arg
            then [UnitCheck HA_cpu (hpr_gold e arg) HA_host (hpr_host_result e arg),
                  UnitCheck HA_cpu (hpr_gold e arg) HA_device (hpr_device_result e arg)]
            else []) @
           (if norm_check arg
            then [NormCheck HA_cpu (hpr_gold e arg) HA_host (hpr_host_result e arg),
                  NormCheck HA_cpu (hpr_gold e arg) HA_device (hpr_device_result e arg)]
            else [])"
    and "mem (hpr_checked e arg) HA = hpr_A e arg"
    and "mem (hpr_checked e arg) HA_host = hpr_host_result e arg"
    and "mem (hpr_checked e arg) HA_device = hpr_device_result e arg"
    and "mem (hpr_checked e arg) HA_cpu = hpr_gold e arg"
    and "\<not> stopped (hpr_checked e arg)"
    and "result (hpr_checked e arg) = None"
    and "gpu_time_used (hpr_checked e arg) = None"
    and "hipblas_error_host (hpr_checked e arg)
           = (if norm_check arg
              then Some (norm_check_general e (hpr_gold e arg) (hpr_host_result e arg))
              else None)"
    and "hipblas_error_device (hpr_checked e arg)
           = (if norm_check arg
              then Some (norm_check_general e (hpr_gold e arg) (hpr_device_result e arg))
              else None)"
proof -
  have x: "\<And>st. mem st HX = hpr_x e arg \<Longrightarrow> mem st HA_cpu = hpr_A e arg \<Longrightarrow>
             cblas_flat e arg [HX] HA_cpu st =
               st\<lparr>trace := trace st @ [Cblas 0 [flat_of (hpr_x e arg)] (flat_of (hpr_A e arg))],
                   mem := (mem st)(HA_cpu := hpr_gold e arg)\<rparr>"
    unfolding hpr_gold_def by (rule cblas_flat_one) (simp_all add: hpr_A_def hpr_x_def init_flat_def)
  show "trace (hpr_checked e arg) =
           trace (hpr_ready e arg) @
           [SetPointerMode HIPBLAS_POINTER_MODE_HOST,
            Kernel HIPBLAS_POINTER_MODE_HOST [HostScalar (alpha arg)] [hpr_x e arg]
              (hpr_A e arg) HIPBLAS_STATUS_SUCCESS,
            Memcpy HA_host DA, Memcpy DA HA,
            SetPointerMode HIPBLAS_POINTER_MODE_DEVICE,
            Kernel HIPBLAS_POINTER_MODE_DEVICE [DeviceScalar (Some (alpha arg))] [hpr_x e arg]
              (hpr_A e arg) HIPBLAS_STATUS_SUCCESS,
            Memcpy HA_device DA,
            Cblas 0 [flat_of (hpr_x e arg)] (flat_of (hpr_A e arg))] @
           (if unit_check arg
            then [UnitCheck HA_cpu (hpr_gold e arg) HA_host (hpr_host_result e arg),
                  UnitCheck HA_cpu (hpr_gold e arg) HA_device (hpr_device_result e arg)]
            else []) @
           (if norm_check arg
            then [NormCheck HA_cpu (hpr_gold e arg) HA_host (hpr_host_result e arg),
                  NormCheck HA_cpu (hpr_gold e arg) HA_device (hpr_device_result e arg)]
            else [])"
    and "mem (hpr_checked e arg) HA = hpr_A e arg"
    and "mem (hpr_checked e arg) HA_host = hpr_host_result e arg"
    and "mem (hpr_checked e arg) HA_device = hpr_device_result e arg"
    and "mem (hpr_checked e arg) HA_cpu = hpr_gold e arg"
    and "\<not> stopped (hpr_checked e arg)"
    and "result (hpr_checked e arg) = None"
    and "gpu_time_used (hpr_checked e arg) = None"
    and "hipblas_error_host (hpr_checked e arg)
           = (if norm_check arg
              then Some (norm_check_general e (hpr_gold e arg) (hpr_host_result e arg))
              else None)"
    and "hipblas_error_device (hpr_checked e arg)
           = (if norm_check arg
              then Some (norm_check_general e (hpr_gold e arg) (hpr_device_result e arg))
              else None)"
    using c
    by (simp_all add: hpr_checked_def hpr_check_def step_defs checked_ok [OF ok]
          kernel_call_ok [OF ok] hpr_ready_fields [OF v ok] x
          hpr_host_result_def hpr_device_result_def)
qed






lemma hpr_checked_calls:
  assumes v: "hpr_valid arg" and ok: "calls_succeed e arg"
    and c: "unit_check arg \<or> norm_check arg"
  shows "filter is_kernel (trace (hpr_checked e arg)) =
           [Kernel HIPBLAS_POINTER_MODE_HOST [HostScalar (alpha arg)] [hpr_x e arg]
              (hpr_A e arg) HIPBLAS_STATUS_SUCCESS,
            Kernel HIPBLAS_POINTER_MODE_DEVICE [DeviceScalar (Some (alpha arg))] [hpr_x e arg]
              (hpr_A e arg) HIPBLAS_STATUS_SUCCESS]"
    and "filter is_cblas (trace (hpr_checked e arg)) =
           [Cblas 0 [flat_of (hpr_x e arg)] (flat_of (hpr_A e arg))]"
  using c
  by (simp_all add: hpr_checked_fields(1) [OF v ok] hpr_ready_fields(1) [OF v ok])

lemma hpr_checked_unit_checks:
  assumes v: "hpr_valid arg" and ok: "calls_succeed e arg" and u: "unit_check arg"
  shows "filter is_unit_check (trace (hpr_checked e arg)) =
           [UnitCheck HA_cpu (hpr_gold e arg) HA_host (hpr_host_result e arg),
            UnitCheck HA_cpu (hpr_gold e arg) HA_device (hpr_device_result e arg)]"
  using u
  by (simp add: hpr_checked_fields(1) [OF v ok] hpr_ready_fields(1) [OF v ok])


lemma herk_ready_fields:
  assumes v: "herk_valid arg" and ok: "calls_succeed e arg"
  shows "trace (herk_ready e arg) =
           [Alloc HA (nat (lda arg * K1 arg)),
            Alloc HC_host (nat (ldc arg * N arg)),
            Alloc HC_device (nat (ldc arg * N arg)),
            Alloc HC_gold (nat (ldc arg * N arg)),
            Alloc DA (nat (lda arg * K1 arg)),
            Alloc DC (nat (ldc arg * N arg)),
            Alloc D_alpha 1, Alloc D_beta 1, CreateHandle, InitData HA, InitData HC_host,
            HostAssign HC_device HC_host, HostAssign HC_gold HC_host,
            Memcpy DA HA, Memcpy DC HC_host, MemcpyScalar D_alpha, MemcpyScalar D_beta]"
    and "mem (herk_ready e arg) HA = herk_A e arg"
    and "mem (herk_ready e arg) DA = herk_A e arg"
    and "mem (herk_ready e arg) HC_host = herk_C e arg"
    and "mem (herk_ready e arg) HC_device = herk_C e arg"
    and "mem (herk_ready e arg) HC_gold = herk_C e arg"
    and "mem (herk_ready e arg) DC = herk_C e arg"
    and "dscal (herk_ready e arg) D_alpha = Some (alpha arg)"
    and "dscal (herk_ready e arg) D_beta = Some (beta arg)"
    and "pointer_mode (herk_ready e arg) = HIPBLAS_POINTER_MODE_HOST"
    and "failure (herk_ready e arg) = None"
    and "finished (herk_ready e arg) = False"
    and "result (herk_ready e arg) = None"
    and "gpu_time_used (herk_ready e arg) = None"
    and "hipblas_error_host (herk_ready e arg) = None"
    and "hipblas_error_device (herk_ready e arg) = None"
  using v
  by (simp_all add: herk_ready_def herk_setup_def herk_valid_def Let_def
        initial_def step_defs checked_ok [OF ok] herk_A_def herk_C_def init_flat_def)

lemma herk_checked_fields:
  assumes v: "herk_valid arg" and ok: "calls_succeed e arg"
    and c: "unit_check arg \<or> norm_check arg"
  shows "trace (herk_checked e arg) =
           trace (herk_ready e arg) @
           [SetPointerMode HIPBLAS_POINTER_MODE_HOST,
            Kernel HIPBLAS_POINTER_MODE_HOST [HostScalar (alpha arg), HostScalar (beta arg)]
              [herk_A e arg] (herk_C e arg) HIPBLAS_STATUS_SUCCESS,
            Memcpy HC_host DC, Memcpy DC HC_device,
            SetPointerMode HIPBLAS_POINTER_MODE_DEVICE,
            Kernel HIPBLAS_POINTER_MODE_DEVICE
              [DeviceScalar (Some (alpha arg)), DeviceScalar (Some (beta arg))]
              [herk_A e arg] (herk_C e arg) HIPBLAS_STATUS_SUCCESS,
            Memcpy HC_device DC,
            Cblas 0 [flat_of (herk_A e arg)] (flat_of (herk_C e arg))] @
           (if unit_check arg
            then [UnitCheck HC_gold (herk_gold e arg) HC_host (herk_host_result e arg),
                  UnitCheck HC_gold (herk_gold e arg) HC_device (herk_device_result e arg)]
            else []) @
           (if norm_check arg
            then [NormCheck HC_gold (herk_gold e arg) HC_host (herk_host_result e arg),
                  NormCheck HC_gold (herk_gold e arg) HC_device (herk_device_result e arg)]
            else [])"
    and "mem (herk_checked e arg) HC_host = herk_host_result e arg"
    and "mem (herk_checked e arg) HC_device = herk_device_result e arg"
    and "mem (herk_checked e arg) HC_gold = herk_gold e arg"
    and "\<not> stopped (herk_checked e arg)"
    and "result (herk_checked e arg) = None"
    and "gpu_time_used (herk_checked e arg) = None"
    and "hipblas_error_host (herk_checked e arg)
           = (if norm_check arg
              then Some (norm_check_general e (herk_gold e arg) (herk_host_result e arg))
              else None)"
    and "hipblas_error_device (herk_checked e arg)
           = (if norm_check arg
              then Some (norm_check_general e (herk_gold e arg) (herk_device_result e arg))
              else None)"
proof -
  have x: "\<And>st. mem st HA = herk_A e arg \<Longrightarrow> mem st HC_gold = herk_C e arg \<Longrightarrow>
             cblas_flat e arg [HA] HC_gold st =
               st\<lparr>trace := trace st @ [Cblas 0 [flat_of (herk_A e arg)] (flat_of (herk_C e arg))],
                   mem := (mem st)(HC_gold := herk_gold e arg)\<rparr>"
    unfolding herk_gold_def
    by (rule cblas_flat_one) (simp_all add: herk_A_def herk_C_def init_flat_def)
  show "trace (herk_checked e arg) =
           trace (herk_ready e arg) @
           [SetPointerMode HIPBLAS_POINTER_MODE_HOST,
            Kernel HIPBLAS_POINTER_MODE_HOST [HostScalar (alpha arg), HostScalar (beta arg)]
              [herk_A e arg] (herk_C e arg) HIPBLAS_STATUS_SUCCESS,
            Memcpy HC_host DC, Memcpy DC HC_device,
            SetPointerMode HIPBLAS_POINTER_MODE_DEVICE,
            Kernel HIPBLAS_POINTER_MODE_DEVICE
              [DeviceScalar (Some (alpha arg)), DeviceScalar (Some (beta arg))]
              [herk_A e arg] (herk_C e arg) HIPBLAS_STATUS_SUCCESS,
            Memcpy HC_device DC,
            Cblas 0 [flat_of (herk_A e arg)] (flat_of (herk_C e arg))] @
           (if unit_check arg
            then [UnitCheck HC_gold (herk_gold e arg) HC_host (herk_host_result e arg),
                  UnitCheck HC_gold (herk_gold e arg) HC_device (herk_device_result e arg)]
            else []) @
           (if norm_check arg
            then [NormCheck HC_gold (herk_gold e arg) HC_host (herk_host_result e arg),
                  NormCheck HC_gold (herk_gold e arg) HC_device (herk_device_result e arg)]
            else [])"
    and "mem (herk_checked e arg) HC_host = herk_host_result e arg"
    and "mem (herk_checked e arg) HC_device = herk_device_result e arg"
    and "mem (herk_checked e arg) HC_gold = herk_gold e arg"
    and "\<not> stopped (herk_checked e arg)"
    and "result (herk_checked e arg) = None"
    and "gpu_time_used (herk_checked e arg) = None"
    and "hipblas_error_host (herk_checked e arg)
           = (if norm_check arg
              then Some (norm_check_general e (herk_gold e arg) (herk_host_result e arg))
              else None)"
    and "hipblas_error_device (herk_checked e arg)
           = (if norm_check arg
              then Some (norm_check_general e (herk_gold e arg) (herk_device_result e arg))
              else None)"
    using c
    by (simp_all add: herk_checked_def herk_check_def step_defs checked_ok [OF ok]
          kernel_call_ok [OF ok] herk_ready_fields [OF v ok] x
          herk_host_result_def herk_device_result_def)
qed






lemma herk_checked_calls:
  assumes v: "herk_valid arg" and ok: "calls_succeed e arg"
    and c: "unit_check arg \<or> norm_check arg"
  shows "filter is_kernel (trace (herk_checked e arg)) =
           [Kernel HIPBLAS_POINTER_MODE_HOST [HostScalar (alpha arg), HostScalar (beta arg)]
              [herk_A e arg] (herk_C e arg) HIPBLAS_STATUS_SUCCESS,
            Kernel HIPBLAS_POINTER_MODE_DEVICE
              [DeviceScalar (Some (alpha arg)), DeviceScalar (Some (beta arg))]
              [herk_A e arg] (herk_C e arg) HIPBLAS_STATUS_SUCCESS]"
    and "filter is_cblas (trace (herk_checked e arg)) =
           [Cblas 0 [flat_of (herk_A e arg)] (flat_of (herk_C e arg))]"
  using c
  by (simp_all add: herk_checked_fields(1) [OF v ok] herk_ready_fields(1) [OF v ok])

lemma herk_checked_unit_checks:
  assumes v: "herk_valid arg" and ok: "calls_succeed e arg" and u: "unit_check arg"
  shows "filter is_unit_check (trace (herk_checked e arg)) =
           [UnitCheck HC_gold (herk_gold e arg) HC_host (herk_host_result e arg),
            UnitCheck HC_gold (herk_gold e arg) HC_device (herk_device_result e arg)]"
  using u
  by (simp add: herk_checked_fields(1) [OF v ok] herk_ready_fields(1) [OF v ok])


lemma length_store [simp]: "length (store off len new xs) = length xs"
  by (simp add: store_def)

lemma nth_store:
  "i < length xs \<Longrightarrow>
     store off len new xs ! i
       = (if off \<le> i \<and> i < off + len \<and> i - off < length new then new ! (i - off) else xs ! i)"
  by (simp add: store_def)

lemma length_slice: "off + len \<le> length xs \<Longrightarrow> length (slice off len xs) = len"
  by (simp add: slice_def)

lemma nth_slice: "off + len \<le> length xs \<Longrightarrow> i < len \<Longrightarrow> slice off len xs ! i = xs ! (off + i)"
  by (simp add: slice_def)

lemma slice_cong:
  assumes "length xs = length ys" "off + len \<le> length xs"
    and "\<And>i. off \<le> i \<Longrightarrow> i < off + len \<Longrightarrow> xs ! i = ys ! i"
  shows "slice off len xs = slice off len ys"
proof (rule nth_equalityI)
  show "length (slice off len xs) = length (slice off len ys)"
    using assms(1,2) by (simp add: length_slice)
next
  fix i assume "i < length (slice off len xs)"
  then have i: "i < len" using assms(2) by (simp add: length_slice)
  then show "slice off len xs ! i = slice off len ys ! i"
    using assms by (simp add: nth_slice)
qed

lemma slice_store_same:
  assumes "off + len \<le> length xs"
  shows "slice off len (store off len new xs) = overwrite new (slice off len xs)"
proof (rule nth_equalityI)
  show "length (slice off len (store off len new xs)) = length (overwrite new (slice off len xs))"
    using assms by (simp add: length_slice overwrite_def)
next
  fix i assume "i < length (slice off len (store off len new xs))"
  then have i: "i < len" using assms by (simp add: length_slice)
  then show "slice off len (store off len new xs) ! i = overwrite new (slice off len xs) ! i"
    using assms by (simp add: nth_slice nth_store overwrite_def length_slice)
qed

lemma overwrite_same_length: "length new = length old \<Longrightarrow> overwrite new old = new"
  by (rule nth_equalityI) (simp_all add: overwrite_def nth_store)

lemma length_strided_gold [simp]: "length (strided_gold f sc wc cs n) = length cs"
  by (induction n) simp_all

lemma strided_gold_beyond:
  assumes "wc \<le> sc" "n * sc \<le> i" "i < length cs"
  shows "strided_gold f sc wc cs n ! i = cs ! i"
  using assms(2)
proof (induction n)
  case 0
  then show ?case by simp
next
  case (Suc n)
  then have "n * sc + wc \<le> i" using assms(1) by simp
  moreover have "n * sc \<le> i" using Suc.prems by simp
  ultimately show ?case using Suc.IH assms(3) by (simp add: nth_store)
qed

lemma strided_gold_next_window:
  assumes "wc \<le> sc" "n * sc + wc \<le> length cs"
  shows "slice (n * sc) wc (strided_gold f sc wc cs n) = slice (n * sc) wc cs"
  using assms by (intro slice_cong) (simp_all add: strided_gold_beyond)

lemma strided_gold_window:
  assumes "wc \<le> sc" "b < n" "n * sc \<le> length cs"
  shows "slice (b * sc) wc (strided_gold f sc wc cs n) = overwrite (f b) (slice (b * sc) wc cs)"
  using assms(2,3)
proof (induction n)
  case 0
  then show ?case by simp
next
  case (Suc n)
  have fit: "n * sc + wc \<le> length cs" using Suc.prems(2) assms(1) by simp
  show ?case
  proof (cases "b = n")
    case True
    then show ?thesis
      using fit by (simp add: slice_store_same strided_gold_next_window [OF assms(1) fit])
  next
    case False
    with Suc.prems have b: "b < n" by simp
    then have "Suc b \<le> n" by simp
    then have "Suc b * sc \<le> n * sc" by (rule mult_le_mono1)
    then have below: "b * sc + wc \<le> n * sc" using assms(1) by simp
    have "slice (b * sc) wc (strided_gold f sc wc cs (Suc n))
          = slice (b * sc) wc (strided_gold f sc wc cs n)"
      using below fit by (intro slice_cong) (simp_all add: nth_store)
    also have "\<dots> = overwrite (f b) (slice (b * sc) wc cs)"
      using Suc.IH [OF b] Suc.prems(2) by simp
    finally show ?thesis .
  qed
qed

lemma window_fits:
  fixes n m s w :: nat
  assumes "w \<le> s" "n < m"
  shows "n * s + w \<le> m * s"
proof -
  have "n * s + w \<le> Suc n * s" using assms(1) by simp
  also have "\<dots> \<le> m * s" using assms(2) by (intro mult_le_mono1) simp
  finally show ?thesis .
qed

lemma cblas_strided_steps:
  assumes m: "mem st HA = Flat as" "mem st HB = Flat bs" "mem st HC_gold = Flat cs"
    and ns: "\<not> stopped st"
    and w: "wa \<le> sa" "wb \<le> sb" "wc \<le> sc"
    and l: "length as = m * sa" "length bs = m * sb" "length cs = m * sc"
    and n: "n \<le> m"
  shows "exec (map (\<lambda>k. cblas_strided e arg [HA, HB] HC_gold k
                          [(k * sa, wa), (k * sb, wb)] (k * sc, wc)) [0..<n]) st
         = st\<lparr>trace := trace st @ map (\<lambda>k. Cblas k [slice (k * sa) wa as, slice (k * sb) wb bs]
                                               (slice (k * sc) wc cs)) [0..<n],
               mem := (mem st)(HC_gold := Flat (strided_gold
                        (\<lambda>k. cblas e arg [slice (k * sa) wa as, slice (k * sb) wb bs]
                                (slice (k * sc) wc cs)) sc wc cs n))\<rparr>"
  using n
proof (induction n)
  case 0
  have "(mem st)(HC_gold := Flat cs) = mem st" using m(3) by (simp add: fun_upd_idem)
  then show ?case by simp
next
  case (Suc n)
  let ?f = "\<lambda>k. cblas e arg [slice (k * sa) wa as, slice (k * sb) wb bs] (slice (k * sc) wc cs)"
  let ?step = "\<lambda>k. cblas_strided e arg [HA, HB] HC_gold k [(k * sa, wa), (k * sb, wb)] (k * sc, wc)"
  let ?S = "st\<lparr>trace := trace st @ map (\<lambda>k. Cblas k [slice (k * sa) wa as, slice (k * sb) wb bs]
                                               (slice (k * sc) wc cs)) [0..<n],
               mem := (mem st)(HC_gold := Flat (strided_gold ?f sc wc cs n))\<rparr>"
  have IH: "exec (map ?step [0..<n]) st = ?S"
    by (rule Suc.IH) (use Suc.prems in simp)
  have lt: "n < m" using Suc.prems by simp
  have fa: "n * sa + wa \<le> length as" using window_fits [OF w(1) lt] l(1) by simp
  have fb: "n * sb + wb \<le> length bs" using window_fits [OF w(2) lt] l(2) by simp
  have fc: "n * sc + wc \<le> length cs" using window_fits [OF w(3) lt] l(3) by simp
  have nsS: "\<not> stopped ?S" using ns by (simp add: stopped_def)
  have win: "slice (n * sc) wc (strided_gold ?f sc wc cs n) = slice (n * sc) wc cs"
    by (rule strided_gold_next_window [OF w(3) fc])
  have step: "?step n ?S =
              st\<lparr>trace := trace st @ map (\<lambda>k. Cblas k [slice (k * sa) wa as, slice (k * sb) wb bs]
                                               (slice (k * sc) wc cs)) [0..<Suc n],
               mem := (mem st)(HC_gold := Flat (strided_gold ?f sc wc cs (Suc n)))\<rparr>"
    using m fa fb fc by (simp add: cblas_strided_def emit_def win)
  have "exec (map ?step [0..<Suc n]) st = exec [?step n] (exec (map ?step [0..<n]) st)"
    by (simp add: exec_append)
  also have "\<dots> = exec [?step n] ?S" by (simp only: IH)
  also have "\<dots> = ?step n ?S" using nsS by simp
  finally show ?case by (simp only: step)
qed

lemma her2k_valid_sizes:
  assumes v: "her2k_valid e arg"
  shows "0 < batch_count arg" "0 \<le> lda arg * K1 arg" "0 \<le> ldb arg * K1 arg" "0 \<le> ldc arg * N arg"
    "0 \<le> stride_A e arg" "0 \<le> stride_B e arg" "0 \<le> stride_C e arg"
    "\<not> stride_A e arg * batch_count arg < 0" "\<not> stride_B e arg * batch_count arg < 0"
    "\<not> stride_C e arg * batch_count arg < 0"
proof -
  from v have b: "0 < batch_count arg" and n: "0 \<le> N arg" and k: "0 \<le> K arg"
    and c: "N arg \<le> ldc arg"
    by (auto simp add: her2k_valid_def her2k_strided_batched_invalid_def)
  from v have a: "0 \<le> lda arg" "0 \<le> ldb arg"
    by (cases "transA arg = HIPBLAS_OP_N";
        auto simp add: her2k_valid_def her2k_strided_batched_invalid_def)+
  have k1: "0 \<le> K1 arg" using n k by (simp add: K1_def)
  show "0 < batch_count arg" by (rule b)
  show wa: "0 \<le> lda arg * K1 arg" using a(1) k1 by simp
  show wb: "0 \<le> ldb arg * K1 arg" using a(2) k1 by simp
  show wc: "0 \<le> ldc arg * N arg" using c n by simp
  show sa: "0 \<le> stride_A e arg" using wa v by (simp add: her2k_valid_def)
  show sb: "0 \<le> stride_B e arg" using wb v by (simp add: her2k_valid_def)
  show sc: "0 \<le> stride_C e arg" using wc v by (simp add: her2k_valid_def)
  show "\<not> stride_A e arg * batch_count arg < 0" using sa b by (simp add: not_less)
  show "\<not> stride_B e arg * batch_count arg < 0" using sb b by (simp add: not_less)
  show "\<not> stride_C e arg * batch_count arg < 0" using sc b by (simp add: not_less)
qed

lemma her2k_ready_fields:
  assumes v: "her2k_valid e arg" and ok: "calls_succeed e arg"
  shows "trace (her2k_ready e arg) =
           [Alloc HA (nat (stride_A e arg * batch_count arg)),
            Alloc HB (nat (stride_B e arg * batch_count arg)),
            Alloc HC_host (nat (stride_C e arg * batch_count arg)),
            Alloc HC_device (nat (stride_C e arg * batch_count arg)),
            Alloc HC_gold (nat (stride_C e arg * batch_count arg)),
            Alloc DA (nat (stride_A e arg * batch_count arg)),
            Alloc DB (nat (stride_B e arg * batch_count arg)),
            Alloc DC (nat (stride_C e arg * batch_count arg)),
            Alloc D_alpha 1, Alloc D_beta 1, CreateHandle,
            InitData HA, InitData HB, InitData HC_host,
            HostAssign HC_device HC_host, HostAssign HC_gold HC_host,
            Memcpy DA HA, Memcpy DB HB, Memcpy DC HC_host,
            MemcpyScalar D_alpha, MemcpyScalar D_beta]"
    and "mem (her2k_ready e arg) HA = her2k_A e arg"
    and "mem (her2k_ready e arg) DA = her2k_A e arg"
    and "mem (her2k_ready e arg) HB = her2k_B e arg"
    and "mem (her2k_ready e arg) DB = her2k_B e arg"
    and "mem (her2k_ready e arg) HC_host = her2k_C e arg"
    and "mem (her2k_ready e arg) HC_device = her2k_C e arg"
    and "mem (her2k_ready e arg) HC_gold = her2k_C e arg"
    and "mem (her2k_ready e arg) DC = her2k_C e arg"
    and "dscal (her2k_ready e arg) D_alpha = Some (alpha arg)"
    and "dscal (her2k_ready e arg) D_beta = Some (beta arg)"
    and "pointer_mode (her2k_ready e arg) = HIPBLAS_POINTER_MODE_HOST"
    and "failure (her2k_ready e arg) = None"
    and "finished (her2k_ready e arg) = False"
    and "result (her2k_ready e arg) = None"
    and "gpu_time_used (her2k_ready e arg) = None"
    and "hipblas_error_host (her2k_ready e arg) = None"
    and "hipblas_error_device (her2k_ready e arg) = None"
proof -
  from v have i: "\<not> her2k_strided_batched_invalid arg" "batch_count arg \<noteq> 0"
    by (simp_all add: her2k_valid_def)
  note z = her2k_valid_sizes(8-10) [OF v]
  show "trace (her2k_ready e arg) =
           [Alloc HA (nat (stride_A e arg * batch_count arg)),
            Alloc HB (nat (stride_B e arg * batch_count arg)),
            Alloc HC_host (nat (stride_C e arg * batch_count arg)),
            Alloc HC_device (nat (stride_C e arg * batch_count arg)),
            Alloc HC_gold (nat (stride_C e arg * batch_count arg)),
            Alloc DA (nat (stride_A e arg * batch_count arg)),
            Alloc DB (nat (stride_B e arg * batch_count arg)),
            Alloc DC (nat (stride_C e arg * batch_count arg)),
            Alloc D_alpha 1, Alloc D_beta 1, CreateHandle,
            InitData HA, InitData HB, InitData HC_host,
            HostAssign HC_device HC_host, HostAssign HC_gold HC_host,
            Memcpy DA HA, Memcpy DB HB, Memcpy DC HC_host,
            MemcpyScalar D_alpha, MemcpyScalar D_beta]"
    and "mem (her2k_ready e arg) HA = her2k_A e arg"
    and "mem (her2k_ready e arg) DA = her2k_A e arg"
    and "mem (her2k_ready e arg) HB = her2k_B e arg"
    and "mem (her2k_ready e arg) DB = her2k_B e arg"
    and "mem (her2k_ready e arg) HC_host = her2k_C e arg"
    and "mem (her2k_ready e arg) HC_device = her2k_C e arg"
    and "mem (her2k_ready e arg) HC_gold = her2k_C e arg"
    and "mem (her2k_ready e arg) DC = her2k_C e arg"
    and "dscal (her2k_ready e arg) D_alpha = Some (alpha arg)"
    and "dscal (her2k_ready e arg) D_beta = Some (beta arg)"
    and "pointer_mode (her2k_ready e arg) = HIPBLAS_POINTER_MODE_HOST"
    and "failure (her2k_ready e arg) = None"
    and "finished (her2k_ready e arg) = False"
    and "result (her2k_ready e arg) = None"
    and "gpu_time_used (her2k_ready e arg) = None"
    and "hipblas_error_host (her2k_ready e arg) = None"
    and "hipblas_error_device (her2k_ready e arg) = None"
    using i z
    by (simp_all add: her2k_ready_def her2k_strided_batched_setup_def Let_def
          initial_def step_defs checked_ok [OF ok] her2k_A_def her2k_B_def her2k_C_def init_flat_def)
qed

lemma her2k_cblas_call_nat:
  assumes v: "her2k_valid e arg"
  shows "her2k_cblas_call e arg (0 + int k) =
           cblas_strided e arg [HA, HB] HC_gold k
             [(k * nat (stride_A e arg), nat (lda arg * K1 arg)),
              (k * nat (stride_B e arg), nat (ldb arg * K1 arg))]
             (k * nat (stride_C e arg), nat (ldc arg * N arg))"
  by (simp add: her2k_cblas_call_def nat_mult_distrib)

lemma her2k_cblas_loop:
  assumes v: "her2k_valid e arg"
    and m: "mem st HA = her2k_A e arg" "mem st HB = her2k_B e arg" "mem st HC_gold = her2k_C e arg"
    and ns: "\<not> stopped st"
  shows "for_loop 0 (batch_count arg) (her2k_cblas_call e arg) st =
           st\<lparr>trace := trace st @ map (\<lambda>k. Cblas k [her2k_A_window e arg k, her2k_B_window e arg k]
                                               (her2k_C_window e arg k)) [0..<nat (batch_count arg)],
               mem := (mem st)(HC_gold := her2k_gold e arg)\<rparr>"
proof -
  note z = her2k_valid_sizes [OF v]
  have w: "nat (lda arg * K1 arg) \<le> nat (stride_A e arg)"
     "nat (ldb arg * K1 arg) \<le> nat (stride_B e arg)"
     "nat (ldc arg * N arg) \<le> nat (stride_C e arg)"
    using v by (auto simp add: her2k_valid_def intro: nat_mono)
  have A: "her2k_A e arg = Flat (flat_of (her2k_A e arg))"
    and B: "her2k_B e arg = Flat (flat_of (her2k_B e arg))"
    and C: "her2k_C e arg = Flat (flat_of (her2k_C e arg))"
    by (simp_all add: her2k_A_def her2k_B_def her2k_C_def init_flat_def)
  have l: "length (flat_of (her2k_A e arg)) = nat (batch_count arg) * nat (stride_A e arg)"
      "length (flat_of (her2k_B e arg)) = nat (batch_count arg) * nat (stride_B e arg)"
      "length (flat_of (her2k_C e arg)) = nat (batch_count arg) * nat (stride_C e arg)"
    using z by (simp_all add: her2k_A_def her2k_B_def her2k_C_def init_flat_def nat_mult_distrib
                  mult.commute)
  have mm: "mem st HA = Flat (flat_of (her2k_A e arg))" "mem st HB = Flat (flat_of (her2k_B e arg))"
     "mem st HC_gold = Flat (flat_of (her2k_C e arg))"
    using m A B C by simp_all
  show ?thesis
    unfolding for_loop_exec her2k_cblas_call_nat [OF v]
    using cblas_strided_steps [OF mm ns w l order_refl, of e arg]
    by (simp add: her2k_gold_def her2k_reference_def [abs_def] her2k_A_window_def her2k_B_window_def
          her2k_C_window_def)
qed

lemma her2k_checked_fields:
  assumes v: "her2k_valid e arg" and ok: "calls_succeed e arg"
    and c: "unit_check arg \<or> norm_check arg"
  shows "trace (her2k_checked e arg) =
           trace (her2k_ready e arg) @
           [SetPointerMode HIPBLAS_POINTER_MODE_HOST,
            Kernel HIPBLAS_POINTER_MODE_HOST [HostScalar (alpha arg), HostScalar (beta arg)]
              [her2k_A e arg, her2k_B e arg] (her2k_C e arg) HIPBLAS_STATUS_SUCCESS,
            Memcpy HC_host DC, Memcpy DC HC_device,
            SetPointerMode HIPBLAS_POINTER_MODE_DEVICE,
            Kernel HIPBLAS_POINTER_MODE_DEVICE
              [DeviceScalar (Some (alpha arg)), DeviceScalar (Some (beta arg))]
              [her2k_A e arg, her2k_B e arg] (her2k_C e arg) HIPBLAS_STATUS_SUCCESS,
            Memcpy HC_device DC] @
           map (\<lambda>k. Cblas k [her2k_A_window e arg k, her2k_B_window e arg k] (her2k_C_window e arg k))
             [0..<nat (batch_count arg)] @
           (if unit_check arg
            then [UnitCheck HC_gold (her2k_gold e arg) HC_host (her2k_host_result e arg),
                  UnitCheck HC_gold (her2k_gold e arg) HC_device (her2k_device_result e arg)]
            else []) @
           (if norm_check arg
            then [NormCheck HC_gold (her2k_gold e arg) HC_host (her2k_host_result e arg),
                  NormCheck HC_gold (her2k_gold e arg) HC_device (her2k_device_result e arg)]
            else [])"
    and "mem (her2k_checked e arg) HC_host = her2k_host_result e arg"
    and "mem (her2k_checked e arg) HC_device = her2k_device_result e arg"
    and "mem (her2k_checked e arg) HC_gold = her2k_gold e arg"
    and "\<not> stopped (her2k_checked e arg)"
    and "result (her2k_checked e arg) = None"
    and "gpu_time_used (her2k_checked e arg) = None"
    and "hipblas_error_host (her2k_checked e arg)
           = (if norm_check arg
              then Some (norm_check_general e (her2k_gold e arg) (her2k_host_result e arg))
              else None)"
    and "hipblas_error_device (her2k_checked e arg)
           = (if norm_check arg
              then Some (norm_check_general e (her2k_gold e arg) (her2k_device_result e arg))
              else None)"
  using c
  by (simp_all add: her2k_checked_def her2k_strided_batched_check_def step_defs checked_ok [OF ok]
        kernel_call_ok [OF ok] her2k_ready_fields [OF v ok] her2k_cblas_loop [OF v]
        her2k_host_result_def her2k_device_result_def)






lemma her2k_checked_calls:
  assumes v: "her2k_valid e arg" and ok: "calls_succeed e arg"
    and c: "unit_check arg \<or> norm_check arg"
  shows "filter is_kernel (trace (her2k_checked e arg)) =
           [Kernel HIPBLAS_POINTER_MODE_HOST [HostScalar (alpha arg), HostScalar (beta arg)]
              [her2k_A e arg, her2k_B e arg] (her2k_C e arg) HIPBLAS_STATUS_SUCCESS,
            Kernel HIPBLAS_POINTER_MODE_DEVICE
              [DeviceScalar (Some (alpha arg)), DeviceScalar (Some (beta arg))]
              [her2k_A e arg, her2k_B e arg] (her2k_C e arg) HIPBLAS_STATUS_SUCCESS]"
    and "filter is_cblas (trace (her2k_checked e arg)) =
           map (\<lambda>k. Cblas k [her2k_A_window e arg k, her2k_B_window e arg k] (her2k_C_window e arg k))
             [0..<nat (batch_count arg)]"
  using c
  by (simp_all add: her2k_checked_fields(1) [OF v ok] her2k_ready_fields(1) [OF v ok]
        filter_map comp_def)

lemma her2k_checked_unit_checks:
  assumes v: "her2k_valid e arg" and ok: "calls_succeed e arg" and u: "unit_check arg"
  shows "filter is_unit_check (trace (her2k_checked e arg)) =
           [UnitCheck HC_gold (her2k_gold e arg) HC_host (her2k_host_result e arg),
            UnitCheck HC_gold (her2k_gold e arg) HC_device (her2k_device_result e arg)]"
  using u
  by (simp add: her2k_checked_fields(1) [OF v ok] her2k_ready_fields(1) [OF v ok]
        filter_map comp_def)












end
